theory Spec2Isabelle
  imports Complex_Main
begin

section \<open>JavaScript numbers\<close>

text \<open>
  Every number of the program is a JavaScript number, a binary64 floating-point number. A
  finite one is modelled by the real it denotes, and the three values that are not finite
  are kept. Addition, subtraction, multiplication and division round their exact result
  to the nearest binary64 number, a tie going to the even significand; a result of
  magnitude \<open>2^1024\<close> or more after rounding is an infinity, and below \<open>2^-1022\<close> the
  numbers are the multiples of \<open>2^-1074\<close>. The sign of a zero is not kept: a zero divisor
  counts as \<open>+0\<close>.
\<close>

datatype jsnum = Fin real | PosInf | NegInf | NaN

subsection \<open>Rounding to binary64\<close>

text \<open>
  \<open>round_even\<close> rounds to the nearest integer, a tie to the even one. \<open>scale_down\<close> and
  \<open>scale_up\<close> bring a positive number \<open>m * 2^e\<close> to a significand \<open>m\<close> with
  \<open>2^52 \<le> m < 2^53\<close>, or to the exponent \<open>-1074\<close> with a smaller significand. \<open>fl\<close> rounds
  the significand.
\<close>

definition round_even :: "real \<Rightarrow> int" where
  "round_even x =
     (let f = \<lfloor>x\<rfloor>; d = x - of_int f
      in if d < 1 / 2 then f else if 1 / 2 < d then f + 1
         else if even f then f else f + 1)"

definition pow2 :: "int \<Rightarrow> real" where
  "pow2 e = (if 0 \<le> e then 2 ^ nat e else 1 / 2 ^ nat (- e))"

function scale_down :: "real \<Rightarrow> int \<Rightarrow> real \<times> int" where
  "scale_down m e = (if 2 ^ 53 \<le> m then scale_down (m / 2) (e + 1) else (m, e))"
  by pat_completeness auto
termination
proof (relation "measure (\<lambda>(m, e). nat \<lceil>m\<rceil>)")
  show "wf (measure (\<lambda>(m, e). nat \<lceil>m\<rceil>))" by simp
next
  fix m :: real and e :: int
  assume "2 ^ 53 \<le> m"
  then have a: "2 \<le> m" by simp
  then have "m / 2 \<le> m - 1" by simp
  then have "\<lceil>m / 2\<rceil> \<le> \<lceil>m - 1\<rceil>" by (rule ceiling_mono)
  then have "\<lceil>m / 2\<rceil> < \<lceil>m\<rceil>" by simp
  moreover have "0 < \<lceil>m\<rceil>" using a by linarith
  ultimately show "((m / 2, e + 1), (m, e)) \<in> measure (\<lambda>(m, e). nat \<lceil>m\<rceil>)"
    by simp
qed

function scale_up :: "real \<Rightarrow> int \<Rightarrow> real \<times> int" where
  "scale_up m e =
     (if m < 2 ^ 52 \<and> - 1074 < e then scale_up (2 * m) (e - 1) else (m, e))"
  by pat_completeness auto
termination
  by (relation "measure (\<lambda>(m, e). nat (e + 1074))") auto

declare scale_down.simps [simp del] scale_up.simps [simp del]

definition fl :: "real \<Rightarrow> jsnum" where
  "fl x =
     (if x = 0 then Fin 0
      else (case scale_down \<bar>x\<bar> 0 of
              (m1, e1) \<Rightarrow>
                (case scale_up m1 e1 of
                   (m, e) \<Rightarrow>
                     (let y = of_int (round_even m) * pow2 e
                      in if 2 ^ 1024 \<le> y then (if 0 < x then PosInf else NegInf)
                         else Fin (sgn x * y)))))"

text \<open>A real is a binary64 number when rounding leaves it as it is.\<close>

definition is_double :: "real \<Rightarrow> bool" where
  "is_double x = (fl x = Fin x)"

text \<open>
  \<open>near n y x\<close>: the computed number \<open>y\<close> is within \<open>n\<close> units of \<open>2^-52\<close> of the exact
  \<open>x\<close>, relative to \<open>x\<close>.
\<close>

definition near :: "nat \<Rightarrow> real \<Rightarrow> real \<Rightarrow> bool" where
  "near n y x = (\<bar>y - x\<bar> \<le> real n / 2 ^ 52 * \<bar>x\<bar>)"

subsection \<open>Arithmetic\<close>

fun js_neg :: "jsnum \<Rightarrow> jsnum" where
  "js_neg (Fin a) = Fin (- a)"
| "js_neg PosInf = NegInf"
| "js_neg NegInf = PosInf"
| "js_neg NaN = NaN"

fun js_add :: "jsnum \<Rightarrow> jsnum \<Rightarrow> jsnum" where
  "js_add (Fin a) (Fin b) = fl (a + b)"
| "js_add NaN _ = NaN"
| "js_add _ NaN = NaN"
| "js_add PosInf NegInf = NaN"
| "js_add NegInf PosInf = NaN"
| "js_add PosInf _ = PosInf"
| "js_add _ PosInf = PosInf"
| "js_add NegInf _ = NegInf"
| "js_add _ NegInf = NegInf"

definition js_sub :: "jsnum \<Rightarrow> jsnum \<Rightarrow> jsnum" where
  "js_sub a b = js_add a (js_neg b)"

text \<open>The sign of a number that is not \<open>NaN\<close>: \<open>1\<close>, \<open>-1\<close> or \<open>0\<close>.\<close>

fun js_sign :: "jsnum \<Rightarrow> real" where
  "js_sign (Fin a) = sgn a"
| "js_sign PosInf = 1"
| "js_sign NegInf = - 1"
| "js_sign NaN = 0"

fun js_mul :: "jsnum \<Rightarrow> jsnum \<Rightarrow> jsnum" where
  "js_mul (Fin a) (Fin b) = fl (a * b)"
| "js_mul NaN _ = NaN"
| "js_mul _ NaN = NaN"
| "js_mul a b =
     (if js_sign a * js_sign b = 0 then NaN
      else if 0 < js_sign a * js_sign b then PosInf else NegInf)"

fun js_div :: "jsnum \<Rightarrow> jsnum \<Rightarrow> jsnum" where
  "js_div (Fin a) (Fin b) =
     (if b \<noteq> 0 then fl (a / b)
      else if a = 0 then NaN else if 0 < a then PosInf else NegInf)"
| "js_div NaN _ = NaN"
| "js_div _ NaN = NaN"
| "js_div (Fin a) _ = Fin 0"
| "js_div PosInf (Fin b) = (if 0 \<le> b then PosInf else NegInf)"
| "js_div NegInf (Fin b) = (if 0 \<le> b then NegInf else PosInf)"
| "js_div _ _ = NaN"

fun js_lt :: "jsnum \<Rightarrow> jsnum \<Rightarrow> bool" where
  "js_lt (Fin a) (Fin b) = (a < b)"
| "js_lt NaN _ = False"
| "js_lt _ NaN = False"
| "js_lt _ NegInf = False"
| "js_lt NegInf _ = True"
| "js_lt PosInf _ = False"
| "js_lt (Fin a) PosInf = True"

definition js_gt :: "jsnum \<Rightarrow> jsnum \<Rightarrow> bool" where
  "js_gt a b = js_lt b a"

text \<open>\<open>a <= b\<close> is \<open>!(b < a)\<close> unless one of them is \<open>NaN\<close>, where it is false.\<close>

definition js_le :: "jsnum \<Rightarrow> jsnum \<Rightarrow> bool" where
  "js_le a b = (a \<noteq> NaN \<and> b \<noteq> NaN \<and> \<not> js_lt b a)"

definition js_ge :: "jsnum \<Rightarrow> jsnum \<Rightarrow> bool" where
  "js_ge a b = js_le b a"

text \<open>
  \<open>Math.min\<close>, \<open>Math.max\<close> and \<open>Math.floor\<close>. They do not round: the floor of a binary64
  number is one.
\<close>

definition js_min :: "jsnum \<Rightarrow> jsnum \<Rightarrow> jsnum" where
  "js_min a b = (if a = NaN \<or> b = NaN then NaN else if js_lt a b then a else b)"

definition js_max :: "jsnum \<Rightarrow> jsnum \<Rightarrow> jsnum" where
  "js_max a b = (if a = NaN \<or> b = NaN then NaN else if js_lt a b then b else a)"

fun js_floor :: "jsnum \<Rightarrow> jsnum" where
  "js_floor (Fin a) = Fin (of_int \<lfloor>a\<rfloor>)"
| "js_floor a = a"

text \<open>A number is falsy when it is zero or \<open>NaN\<close>; \<open>a || d\<close> is \<open>d\<close> for a falsy \<open>a\<close>.\<close>

fun js_truthy :: "jsnum \<Rightarrow> bool" where
  "js_truthy (Fin a) = (a \<noteq> 0)"
| "js_truthy NaN = False"
| "js_truthy _ = True"

definition js_or :: "jsnum \<Rightarrow> jsnum \<Rightarrow> jsnum" where
  "js_or a d = (if js_truthy a then a else d)"

text \<open>
  \<open>parseFloat\<close> and \<open>parseInt\<close> of a text. The text is given by the number its decimal
  digits denote (\<open>NaN\<close> when the variable is unset or the text is no number):
  \<open>parseFloat\<close> rounds it to binary64 and \<open>parseInt\<close> drops the fraction first; the text
  of an infinity is no integer.
\<close>

fun parseFloat :: "jsnum \<Rightarrow> jsnum" where
  "parseFloat (Fin a) = fl a"
| "parseFloat a = a"

fun parseInt :: "jsnum \<Rightarrow> jsnum" where
  "parseInt (Fin a) = fl (if 0 \<le> a then of_int \<lfloor>a\<rfloor> else of_int \<lceil>a\<rceil>)"
| "parseInt _ = NaN"

text \<open>
  The text \<open>x.toFixed(2)\<close>, given by the number its digits denote: the multiple of a
  hundredth nearest to \<open>x\<close>, a tie going away from zero.
\<close>

fun toFixed2 :: "jsnum \<Rightarrow> jsnum" where
  "toFixed2 (Fin a) = Fin (sgn a * of_int \<lfloor>\<bar>a\<bar> * 100 + 1 / 2\<rfloor> / 100)"
| "toFixed2 a = a"

section \<open>Risk manager\<close>

text \<open>
  The class \<open>RiskManager\<close>. The calendar day (\<open>new Date().toDateString()\<close>) is an input of
  every operation that reads the clock.
\<close>

record risk_config =
  capitalInicial :: jsnum
  lucroMaximoDiario :: jsnum
  perdaMaximaDiaria :: jsnum
  agressividade :: jsnum
  maxPosicoes :: jsnum
  maxPosicoesStocks :: jsnum
  maxPosicoesCrypto :: jsnum
  stopLossPercent :: jsnum
  takeProfitPercent :: jsnum

record daily_stats =
  startBalance :: jsnum
  currentPnL :: jsnum
  tradesCount :: nat
  startDate :: string

record RiskManager =
  config :: risk_config
  dailyStats :: daily_stats

definition RiskManager_new :: "risk_config \<Rightarrow> string \<Rightarrow> RiskManager" where
  "RiskManager_new c today =
     \<lparr> config =
         \<lparr> capitalInicial = js_or (parseFloat (capitalInicial c)) (Fin 5000),
           lucroMaximoDiario = js_or (parseFloat (lucroMaximoDiario c)) (Fin 500),
           perdaMaximaDiaria = js_or (parseFloat (perdaMaximaDiaria c)) (Fin 200),
           agressividade = js_or (parseInt (agressividade c)) (Fin 70),
           maxPosicoes = js_or (parseInt (maxPosicoes c)) (Fin 5),
           maxPosicoesStocks = js_or (parseInt (maxPosicoesStocks c)) (Fin 3),
           maxPosicoesCrypto = js_or (parseInt (maxPosicoesCrypto c)) (Fin 3),
           stopLossPercent = js_or (parseFloat (stopLossPercent c)) (Fin 2),
           takeProfitPercent = js_or (parseFloat (takeProfitPercent c)) (Fin 4) \<rparr>,
       dailyStats =
         \<lparr> startBalance = Fin 0, currentPnL = Fin 0, tradesCount = 0, startDate = today \<rparr> \<rparr>"

definition resetDailyStats :: "RiskManager \<Rightarrow> string \<Rightarrow> jsnum \<Rightarrow> RiskManager" where
  "resetDailyStats rm today startBal =
     (if startDate (dailyStats rm) \<noteq> today
      then rm \<lparr> dailyStats :=
             \<lparr> startBalance = startBal, currentPnL = Fin 0, tradesCount = 0,
               startDate = today \<rparr> \<rparr>
      else rm)"

definition updateDailyPnL :: "RiskManager \<Rightarrow> jsnum \<Rightarrow> RiskManager" where
  "updateDailyPnL rm currentBalance =
     rm \<lparr> dailyStats := (dailyStats rm)
            \<lparr> currentPnL := js_sub currentBalance (startBalance (dailyStats rm)) \<rparr> \<rparr>"

definition hasHitDailyProfitLimit :: "RiskManager \<Rightarrow> bool" where
  "hasHitDailyProfitLimit rm =
     js_ge (currentPnL (dailyStats rm)) (lucroMaximoDiario (config rm))"

definition hasHitDailyLossLimit :: "RiskManager \<Rightarrow> bool" where
  "hasHitDailyLossLimit rm =
     js_le (currentPnL (dailyStats rm)) (js_neg (perdaMaximaDiaria (config rm)))"

definition shouldStopTrading :: "RiskManager \<Rightarrow> bool" where
  "shouldStopTrading rm =
     (if hasHitDailyProfitLimit rm then True
      else if hasHitDailyLossLimit rm then True
      else False)"

definition lossPercent :: "RiskManager \<Rightarrow> jsnum \<Rightarrow> jsnum" where
  "lossPercent rm currentBalance =
     js_mul (js_div (js_sub currentBalance (startBalance (dailyStats rm)))
                    (startBalance (dailyStats rm)))
            (Fin 100)"

definition checkCircuitBreaker :: "RiskManager \<Rightarrow> jsnum \<Rightarrow> bool" where
  "checkCircuitBreaker rm currentBalance =
     (if js_le (lossPercent rm currentBalance) (Fin (- 5)) then True else False)"

definition calculatePositionSize :: "RiskManager \<Rightarrow> jsnum \<Rightarrow> jsnum \<Rightarrow> jsnum" where
  "calculatePositionSize rm accountBalance price =
     (let baseRiskPercent = Fin 2;
          adjustedRiskPercent =
            js_mul baseRiskPercent (js_div (agressividade (config rm)) (Fin 100));
          positionValue = js_mul accountBalance (js_div adjustedRiskPercent (Fin 100));
          quantity = js_floor (js_div positionValue price)
      in if js_gt quantity (Fin 0) then quantity else Fin 1)"

definition calculateCryptoPositionSize :: "RiskManager \<Rightarrow> jsnum \<Rightarrow> jsnum \<Rightarrow> jsnum" where
  "calculateCryptoPositionSize rm accountBalance price =
     (let baseRiskPercent = Fin 2;
          adjustedRiskPercent =
            js_mul baseRiskPercent (js_div (agressividade (config rm)) (Fin 100));
          positionValue = js_mul accountBalance (js_div adjustedRiskPercent (Fin 100));
          quantity = js_div positionValue price
      in js_max quantity (fl (1 / 1000)))"

record risk_stats =
  dailyPnL :: jsnum
  dailyPnLPercent :: jsnum
  rs_tradesCount :: nat
  profitLimitRemaining :: jsnum
  lossLimitRemaining :: jsnum
  canTrade :: bool

definition getRiskStats :: "RiskManager \<Rightarrow> risk_stats" where
  "getRiskStats rm =
     \<lparr> dailyPnL = currentPnL (dailyStats rm),
       dailyPnLPercent =
         js_mul (js_div (currentPnL (dailyStats rm)) (startBalance (dailyStats rm))) (Fin 100),
       rs_tradesCount = tradesCount (dailyStats rm),
       profitLimitRemaining =
         js_sub (lucroMaximoDiario (config rm)) (currentPnL (dailyStats rm)),
       lossLimitRemaining =
         js_add (perdaMaximaDiaria (config rm)) (currentPnL (dailyStats rm)),
       canTrade = (\<not> shouldStopTrading rm) \<rparr>"

text \<open>
  The calls that write the daily session, and a day of them: any sequence of
  \<open>resetDailyStats\<close> and \<open>updateDailyPnL\<close> calls, all made on the day \<open>today\<close>.
\<close>

datatype session_call = ResetDailyStats jsnum | UpdateDailyPnL jsnum

fun session_step :: "string \<Rightarrow> RiskManager \<Rightarrow> session_call \<Rightarrow> RiskManager" where
  "session_step today rm (ResetDailyStats b) = resetDailyStats rm today b"
| "session_step today rm (UpdateDailyPnL b) = updateDailyPnL rm b"

definition session_day :: "string \<Rightarrow> RiskManager \<Rightarrow> session_call list \<Rightarrow> RiskManager" where
  "session_day today rm calls = foldl (session_step today) rm calls"

text \<open>The configuration read from an environment in which no variable is set.\<close>

definition env_unset :: risk_config where
  "env_unset =
     \<lparr> capitalInicial = NaN, lucroMaximoDiario = NaN, perdaMaximaDiaria = NaN,
       agressividade = NaN, maxPosicoes = NaN, maxPosicoesStocks = NaN,
       maxPosicoesCrypto = NaN, stopLossPercent = NaN, takeProfitPercent = NaN \<rparr>"

text \<open>The formulas of the specification for the size of a position.\<close>

definition spec_riskFraction :: "real \<Rightarrow> real" where
  "spec_riskFraction aggressiveness = 2 / 100 * (aggressiveness / 100)"

definition spec_positionValue :: "real \<Rightarrow> real \<Rightarrow> real" where
  "spec_positionValue balance aggressiveness = balance * spec_riskFraction aggressiveness"

text \<open>
  The same formulas in binary64 arithmetic, in the order in which the specification writes
  them: \<open>floor (balance * (0.02 * (aggressiveness / 100)) / price)\<close>.
\<close>

definition spec_quantity_js :: "real \<Rightarrow> real \<Rightarrow> real \<Rightarrow> jsnum" where
  "spec_quantity_js balance price aggressiveness =
     js_floor (js_div (js_mul (Fin balance)
                         (js_mul (fl (2 / 100)) (js_div (Fin aggressiveness) (Fin 100))))
                      (Fin price))"

section \<open>Signal engine\<close>

text \<open>
  The class \<open>RSIStrategy\<close>. The constructor reads \<open>config.rsiPeriod || 14\<close> and so on: a
  value that is unset or zero gives the default. The period is a whole number of bars,
  and the close of a bar is a finite number.
\<close>

datatype signal_type = BUY | SELL | HOLD

record bar =
  time :: nat
  close :: real

record strategy_config =
  rsiPeriod :: "nat option"
  rsiOversold :: jsnum
  rsiOverbought :: jsnum

record RSIStrategy =
  period :: nat
  oversold :: jsnum
  overbought :: jsnum

definition RSIStrategy_new :: "strategy_config \<Rightarrow> RSIStrategy" where
  "RSIStrategy_new c =
     \<lparr> period = (case rsiPeriod c of None \<Rightarrow> 14 | Some p \<Rightarrow> if p = 0 then 14 else p),
       oversold = js_or (rsiOversold c) (Fin 30),
       overbought = js_or (rsiOverbought c) (Fin 70) \<rparr>"

subsection \<open>The indicator\<close>

text \<open>
  Modelled from the spec: \<open>RSI.calculate\<close> of the package \<open>technicalindicators\<close>, which
  \<open>calculateRSI\<close> calls and which is not among the sources. The specification's words:
  seed average gain and average loss as the simple mean of the first \<open>period\<close> signed price
  deltas (gains and losses separated), then update each subsequent step as
  \<open>avg = (avg * (period - 1) + newValue) / period\<close>; \<open>RS = avgGain / avgLoss\<close>;
  \<open>indicator = 100 - 100 / (1 + RS)\<close>, and \<open>indicator = 100\<close> when \<open>avgLoss = 0\<close>. The result
  lists the indicator at the seed and after every later step, and is empty for fewer than
  \<open>period + 1\<close> prices.
\<close>

definition deltas :: "real list \<Rightarrow> real list" where
  "deltas xs = map (\<lambda>(a, b). b - a) (zip xs (tl xs))"

definition gain :: "real \<Rightarrow> real" where
  "gain d = max d 0"

definition loss :: "real \<Rightarrow> real" where
  "loss d = max (- d) 0"

definition wilder :: "nat \<Rightarrow> real \<Rightarrow> real \<Rightarrow> real" where
  "wilder p avg newValue = (avg * (real p - 1) + newValue) / real p"

definition indicator :: "real \<Rightarrow> real \<Rightarrow> real" where
  "indicator avgGain avgLoss =
     (if avgLoss = 0 then 100 else 100 - 100 / (1 + avgGain / avgLoss))"

fun smooth :: "nat \<Rightarrow> real \<Rightarrow> real \<Rightarrow> real list \<Rightarrow> real list" where
  "smooth p avgGain avgLoss [] = [indicator avgGain avgLoss]"
| "smooth p avgGain avgLoss (d # ds) =
     indicator avgGain avgLoss
       # smooth p (wilder p avgGain (gain d)) (wilder p avgLoss (loss d)) ds"

definition RSI_calculate :: "real list \<Rightarrow> nat \<Rightarrow> real list" where
  "RSI_calculate values p =
     (if length values < p + 1 then []
      else let ds = deltas values;
               avgGain = sum_list (map gain (take p ds)) / real p;
               avgLoss = sum_list (map loss (take p ds)) / real p
           in smooth p avgGain avgLoss (drop p ds))"

subsection \<open>The strategy\<close>

definition calculateRSI :: "RSIStrategy \<Rightarrow> bar list \<Rightarrow> jsnum option" where
  "calculateRSI st historicalData =
     (if length historicalData < period st + 1 then None
      else let closePrices = map close historicalData;
               rsiValues = RSI_calculate closePrices (period st)
           in if 0 < length rsiValues then Some (Fin (last rsiValues)) else None)"

text \<open>
  A signal of the strategy. Its \<open>rsi\<close> is the text \<open>rsi.toFixed(2)\<close>, given by the number
  its digits denote, or \<open>null\<close>.
\<close>

record rsi_signal =
  sig_type :: signal_type
  sig_strength :: jsnum
  sig_rsi :: "jsnum option"

definition generateSignal :: "RSIStrategy \<Rightarrow> jsnum option \<Rightarrow> rsi_signal" where
  "generateSignal st rsi =
     (case rsi of
        None \<Rightarrow> \<lparr> sig_type = HOLD, sig_strength = Fin 0, sig_rsi = None \<rparr>
      | Some r \<Rightarrow>
          if js_lt r (oversold st) then
            (let strength = js_mul (js_div (js_sub (oversold st) r) (oversold st)) (Fin 100)
             in \<lparr> sig_type = BUY, sig_strength = js_min strength (Fin 100),
                  sig_rsi = Some (toFixed2 r) \<rparr>)
          else if js_gt r (overbought st) then
            (let strength =
                   js_mul (js_div (js_sub r (overbought st))
                                  (js_sub (Fin 100) (overbought st))) (Fin 100)
             in \<lparr> sig_type = SELL, sig_strength = js_min strength (Fin 100),
                  sig_rsi = Some (toFixed2 r) \<rparr>)
          else \<lparr> sig_type = HOLD, sig_strength = Fin 0, sig_rsi = Some (toFixed2 r) \<rparr>)"

record analysis =
  an_rsi :: "jsnum option"
  an_signal :: signal_type
  an_strength :: jsnum

definition analyze :: "RSIStrategy \<Rightarrow> bar list \<Rightarrow> analysis" where
  "analyze st historicalData =
     (let rsi = calculateRSI st historicalData;
          sg = generateSignal st rsi
      in \<lparr> an_rsi = sig_rsi sg, an_signal = sig_type sg, an_strength = sig_strength sg \<rparr>)"

text \<open>
  The clamp of the specification, \<open>clamp(x, lo, hi)\<close>, on JavaScript numbers:
  \<open>Math.max(lo, Math.min(x, hi))\<close>.
\<close>

definition spec_clamp :: "jsnum \<Rightarrow> jsnum \<Rightarrow> jsnum \<Rightarrow> jsnum" where
  "spec_clamp x lo hi = js_max lo (js_min x hi)"

text \<open>
  The strategy of an environment in which no variable is set, and a price history of \<open>n\<close>
  bars that all close at \<open>c\<close>.
\<close>

definition default_strategy :: RSIStrategy where
  "default_strategy =
     RSIStrategy_new \<lparr> rsiPeriod = None, rsiOversold = NaN, rsiOverbought = NaN \<rparr>"

definition flat_series :: "nat \<Rightarrow> real \<Rightarrow> bar list" where
  "flat_series n c = map (\<lambda>t. \<lparr> time = t, close = c \<rparr>) [0..<n]"

section \<open>Venue adapters\<close>

text \<open>
  The two services are handed to the scanner and to the bot, which see them only through
  their calls. A service is the record of what its calls answer; a call that can throw
  answers \<open>Inl\<close> of the error. \<open>testConnection\<close>, \<open>isMarketOpen\<close>, \<open>getPositions\<close> and
  \<open>getMinOrderSize\<close> catch every error themselves. The fetches of the scanner
  (\<open>getHistoricalData\<close>, \<open>getCurrentPrice\<close>, \<open>getAvailableSymbol\<close>) are taken as calls that
  can throw, since the scanner guards each of them. Within one cycle a call with the same
  arguments answers the same.
\<close>

datatype exn = Error string

datatype exchange = Alpaca | Kraken

datatype asset_type = stock | crypto

record position =
  pos_symbol :: string
  pos_exchange :: exchange
  profitLoss :: "jsnum option"
  profitLossPercent :: "jsnum option"

record alpaca_balance =
  cash :: jsnum
  equity :: jsnum
  buyingPower :: jsnum
  portfolioValue :: jsnum

record kraken_balance =
  total :: jsnum

record order =
  order_id :: string
  order_status :: string

record alpaca_service =
  a_testConnection :: bool
  a_getBalance :: "exn + alpaca_balance"
  a_isMarketOpen :: bool
  a_getCurrentPrice :: "string \<Rightarrow> exn + jsnum option"
  a_getHistoricalData :: "string \<Rightarrow> exn + bar list"
  a_buy :: "string \<Rightarrow> jsnum \<Rightarrow> exn + order"
  a_getPositions :: "position list"
  a_closePosition :: "string \<Rightarrow> exn + bool"
  a_closeAllPositions :: "exn + bool"

record kraken_service =
  k_testConnection :: bool
  k_getBalance :: "exn + kraken_balance"
  k_getAvailableSymbol :: "string \<Rightarrow> string \<Rightarrow> exn + string option"
  k_getCurrentPrice :: "string \<Rightarrow> exn + jsnum option"
  k_getHistoricalData :: "string \<Rightarrow> exn + bar list"
  k_buy :: "string \<Rightarrow> jsnum \<Rightarrow> exn + order"
  k_getPositions :: "position list"
  k_closePosition :: "string \<Rightarrow> exn + bool"
  k_getMinOrderSize :: "string \<Rightarrow> jsnum"

record crypto_config =
  cfg_symbol :: string
  cfg_fallback :: string

section \<open>Scanner\<close>

record scan_signal =
  symbol :: string
  exchange :: exchange
  asset_type :: asset_type
  currentPrice :: jsnum
  rsi :: jsnum
  signal :: signal_type
  strength :: jsnum

text \<open>\<open>parseFloat(analysis.rsi)\<close>: \<open>NaN\<close> for \<open>null\<close>.\<close>

definition parse_rsi :: "jsnum option \<Rightarrow> jsnum" where
  "parse_rsi r = (case r of None \<Rightarrow> NaN | Some x \<Rightarrow> parseFloat x)"

text \<open>
  \<open>scanStock\<close> and \<open>scanCrypto\<close>: the whole body is in a \<open>try\<close>, and the \<open>catch\<close> returns
  \<open>null\<close>. \<open>!currentPrice\<close> holds of \<open>null\<close>, zero and \<open>NaN\<close>. The time stamp of a signal is
  left out.
\<close>

definition scanStock :: "alpaca_service \<Rightarrow> RSIStrategy \<Rightarrow> string \<Rightarrow> scan_signal option" where
  "scanStock a st sy =
     (case a_getHistoricalData a sy of
        Inl error \<Rightarrow> None
      | Inr historicalData \<Rightarrow>
          if length historicalData < 20 then None
          else (case a_getCurrentPrice a sy of
                  Inl error \<Rightarrow> None
                | Inr None \<Rightarrow> None
                | Inr (Some price) \<Rightarrow>
                    if \<not> js_truthy price then None
                    else (let an = analyze st historicalData
                          in Some \<lparr> symbol = sy, exchange = Alpaca, asset_type = stock,
                                    currentPrice = price, rsi = parse_rsi (an_rsi an),
                                    signal = an_signal an, strength = an_strength an \<rparr>)))"

definition scanCrypto :: "kraken_service \<Rightarrow> RSIStrategy \<Rightarrow> crypto_config \<Rightarrow> scan_signal option"
  where
  "scanCrypto k st cryptoConfig =
     (case k_getAvailableSymbol k (cfg_symbol cryptoConfig) (cfg_fallback cryptoConfig) of
        Inl error \<Rightarrow> None
      | Inr None \<Rightarrow> None
      | Inr (Some sy) \<Rightarrow>
          (case k_getHistoricalData k sy of
             Inl error \<Rightarrow> None
           | Inr historicalData \<Rightarrow>
               if length historicalData < 20 then None
               else (case k_getCurrentPrice k sy of
                       Inl error \<Rightarrow> None
                     | Inr None \<Rightarrow> None
                     | Inr (Some price) \<Rightarrow>
                         if \<not> js_truthy price then None
                         else (let an = analyze st historicalData
                               in Some \<lparr> symbol = sy, exchange = Kraken, asset_type = crypto,
                                         currentPrice = price,
                                         rsi = parse_rsi (an_rsi an),
                                         signal = an_signal an,
                                         strength = an_strength an \<rparr>))))"

text \<open>
  What the services answer for an asset whose scan goes through: the fetches do not
  throw, the history has at least twenty bars, and the price is there and is neither zero
  nor \<open>NaN\<close>; for a crypto pair the symbol lookup finds a symbol first.
\<close>

definition stock_fetch_ok :: "alpaca_service \<Rightarrow> string \<Rightarrow> bool" where
  "stock_fetch_ok a sy =
     (case a_getHistoricalData a sy of
        Inl error \<Rightarrow> False
      | Inr historicalData \<Rightarrow>
          20 \<le> length historicalData
          \<and> (case a_getCurrentPrice a sy of
                Inl error \<Rightarrow> False
              | Inr None \<Rightarrow> False
              | Inr (Some price) \<Rightarrow> js_truthy price))"

definition crypto_fetch_ok :: "kraken_service \<Rightarrow> crypto_config \<Rightarrow> bool" where
  "crypto_fetch_ok k cryptoConfig =
     (case k_getAvailableSymbol k (cfg_symbol cryptoConfig) (cfg_fallback cryptoConfig) of
        Inl error \<Rightarrow> False
      | Inr None \<Rightarrow> False
      | Inr (Some sy) \<Rightarrow>
          (case k_getHistoricalData k sy of
             Inl error \<Rightarrow> False
           | Inr historicalData \<Rightarrow>
               20 \<le> length historicalData
               \<and> (case k_getCurrentPrice k sy of
                     Inl error \<Rightarrow> False
                   | Inr None \<Rightarrow> False
                   | Inr (Some price) \<Rightarrow> js_truthy price)))"

text \<open>
  \<open>scanStocks\<close> and \<open>scanCryptos\<close> start one scan per asset, wait for all of them
  (\<open>Promise.allSettled\<close>) and keep the results that are fulfilled and not \<open>null\<close>, in the
  order of the assets. No scan rejects, and the scans share no state, so the result is
  that of scanning one asset after the other.
\<close>

definition scanStocks :: "alpaca_service \<Rightarrow> RSIStrategy \<Rightarrow> string list \<Rightarrow> scan_signal list"
  where
  "scanStocks a st stockSymbols = List.map_filter (scanStock a st) stockSymbols"

definition scanCryptos ::
  "kraken_service \<Rightarrow> RSIStrategy \<Rightarrow> crypto_config list \<Rightarrow> scan_signal list" where
  "scanCryptos k st cryptoConfigs = List.map_filter (scanCrypto k st) cryptoConfigs"

text \<open>
  \<open>Array.prototype.sort\<close> with a comparator: a stable sort, here by insertion. \<open>x\<close> goes
  behind \<open>y\<close> when the comparator is positive on them.
\<close>

fun insert_by :: "('a \<Rightarrow> 'a \<Rightarrow> jsnum) \<Rightarrow> 'a \<Rightarrow> 'a list \<Rightarrow> 'a list" where
  "insert_by cmp x [] = [x]"
| "insert_by cmp x (y # ys) =
     (if js_gt (cmp x y) (Fin 0) then y # insert_by cmp x ys else x # y # ys)"

definition js_sort :: "('a \<Rightarrow> 'a \<Rightarrow> jsnum) \<Rightarrow> 'a list \<Rightarrow> 'a list" where
  "js_sort cmp xs = foldr (insert_by cmp) xs []"

definition by_strength :: "scan_signal \<Rightarrow> scan_signal \<Rightarrow> jsnum" where
  "by_strength a b = js_sub (strength b) (strength a)"

record scan_stats =
  st_total :: nat
  buyCount :: nat
  sellCount :: nat

record scan_results =
  sr_all :: "scan_signal list"
  sr_buy :: "scan_signal list"
  sr_sell :: "scan_signal list"
  sr_stats :: scan_stats

text \<open>\<open>scanAll\<close>; the elapsed time in its statistics is left out.\<close>

definition scanAll ::
  "alpaca_service \<Rightarrow> kraken_service \<Rightarrow> RSIStrategy \<Rightarrow> string list \<Rightarrow> crypto_config list
     \<Rightarrow> scan_results" where
  "scanAll a k st stockSymbols cryptoConfigs =
     (let stockSignals = scanStocks a st stockSymbols;
          cryptoSignals = scanCryptos k st cryptoConfigs;
          allSignals = stockSignals @ cryptoSignals;
          buySignals = filter (\<lambda>s. signal s = BUY) allSignals;
          sellSignals = filter (\<lambda>s. signal s = SELL) allSignals;
          topBuySignals = js_sort by_strength buySignals;
          topSellSignals = js_sort by_strength sellSignals
      in \<lparr> sr_all = allSignals, sr_buy = topBuySignals, sr_sell = topSellSignals,
           sr_stats = \<lparr> st_total = length allSignals, buyCount = length buySignals,
                        sellCount = length sellSignals \<rparr> \<rparr>)"

definition findBestOpportunities :: "scan_signal list \<Rightarrow> jsnum \<Rightarrow> nat \<Rightarrow> scan_signal list"
  where
  "findBestOpportunities signals minStrength limit =
     take limit
       (js_sort by_strength
          (filter (\<lambda>s. js_ge (strength s) minStrength \<and> signal s \<noteq> HOLD) signals))"

section \<open>Risk manager: open positions\<close>

text \<open>A field that a position lacks reads as \<open>undefined\<close>, which compares as \<open>NaN\<close> does.\<close>

definition js_undef :: "jsnum option \<Rightarrow> jsnum" where
  "js_undef x = (case x of None \<Rightarrow> NaN | Some a \<Rightarrow> a)"

definition canOpenPosition :: "RiskManager \<Rightarrow> position list \<Rightarrow> exchange \<Rightarrow> bool" where
  "canOpenPosition rm currentPositions exch =
     (let totalPositions = length currentPositions;
          stockPositions = length (filter (\<lambda>p. pos_exchange p = Alpaca) currentPositions);
          cryptoPositions = length (filter (\<lambda>p. pos_exchange p = Kraken) currentPositions)
      in if js_ge (Fin (real totalPositions)) (maxPosicoes (config rm)) then False
         else if exch = Alpaca
                 \<and> js_ge (Fin (real stockPositions)) (maxPosicoesStocks (config rm))
         then False
         else if exch = Kraken
                 \<and> js_ge (Fin (real cryptoPositions)) (maxPosicoesCrypto (config rm))
         then False
         else True)"

definition shouldClosePosition :: "RiskManager \<Rightarrow> position \<Rightarrow> bool" where
  "shouldClosePosition rm pos =
     (let profitPercent = js_undef (profitLossPercent pos)
      in if js_le profitPercent (js_neg (stopLossPercent (config rm))) then True
         else if js_ge profitPercent (takeProfitPercent (config rm)) then True
         else False)"

section \<open>Trading bot\<close>

text \<open>
  The class \<open>TradingBot\<close>. The world of a call is what the two services answer during it,
  the calendar day and the time. \<open>scanInterval\<close> tells whether the bot holds the handle of
  an interval timer. Every operation returns the bot as it leaves it, together with the
  orders it gave to the services, in the order of the calls: \<open>Buy\<close> for a call of \<open>buy\<close>,
  \<open>ClosePosition\<close> for a call of \<open>closePosition\<close>, \<open>CloseAllPositions\<close> for the call of that
  name on the equities service. Console output is left out.
\<close>

datatype run_status = Stopped | Running | Paused

datatype action = Buy exchange string jsnum | ClosePosition exchange string | CloseAllPositions

record world =
  alpaca :: alpaca_service
  kraken :: kraken_service
  w_today :: string
  w_now :: nat

record bot_stats =
  tradesExecuted :: nat
  lastScanTime :: "nat option"
  lastSignals :: "scan_signal list"
  errors :: nat

record TradingBot =
  riskManager :: RiskManager
  strategy :: RSIStrategy
  status :: run_status
  scanInterval :: bool
  stats :: bot_stats
  stockSymbols :: "string list"
  cryptoConfigs :: "crypto_config list"

text \<open>
  The constructor: \<open>parseInt(config.rsiPeriod) || 14\<close> and so on, handed to the strategy.
  The asset lists are set by \<open>start\<close>.
\<close>

definition TradingBot_new :: "RiskManager \<Rightarrow> strategy_config \<Rightarrow> TradingBot" where
  "TradingBot_new rm c =
     \<lparr> riskManager = rm,
       strategy = RSIStrategy_new
         \<lparr> rsiPeriod = Some (case rsiPeriod c of None \<Rightarrow> 14
                               | Some p \<Rightarrow> if p = 0 then 14 else p),
           rsiOversold = js_or (parseInt (rsiOversold c)) (Fin 30),
           rsiOverbought = js_or (parseInt (rsiOverbought c)) (Fin 70) \<rparr>,
       status = Stopped,
       scanInterval = False,
       stats = \<lparr> tradesExecuted = 0, lastScanTime = None, lastSignals = [], errors = 0 \<rparr>,
       stockSymbols = [],
       cryptoConfigs = [] \<rparr>"

definition getTotalBalance :: "world \<Rightarrow> exn + jsnum" where
  "getTotalBalance w =
     (case a_getBalance (alpaca w) of
        Inl error \<Rightarrow> Inl error
      | Inr alpacaBalance \<Rightarrow>
          (case k_getBalance (kraken w) of
             Inl error \<Rightarrow> Inl error
           | Inr krakenBalance \<Rightarrow>
               Inr (js_add (portfolioValue alpacaBalance) (total krakenBalance))))"

definition getAllPositions :: "world \<Rightarrow> position list" where
  "getAllPositions w = a_getPositions (alpaca w) @ k_getPositions (kraken w)"

definition pause :: "TradingBot \<Rightarrow> TradingBot \<times> bool" where
  "pause tb =
     (if status tb \<noteq> Running then (tb, False)
      else (tb \<lparr> status := Paused, scanInterval := False \<rparr>, True))"

definition stop :: "TradingBot \<Rightarrow> TradingBot" where
  "stop tb = tb \<lparr> status := Stopped, scanInterval := False \<rparr>"

subsection \<open>Buying\<close>

text \<open>
  \<open>executeBuyStock\<close> and \<open>executeBuyCrypto\<close> return the order, or nothing (\<open>undefined\<close>)
  when the position is too small, or throw what \<open>getBalance\<close> or \<open>buy\<close> throws.
\<close>

definition executeBuyStock ::
  "world \<Rightarrow> RiskManager \<Rightarrow> scan_signal \<Rightarrow> action list \<times> (exn + order option)" where
  "executeBuyStock w rm sg =
     (case a_getBalance (alpaca w) of
        Inl error \<Rightarrow> ([], Inl error)
      | Inr alpacaBalance \<Rightarrow>
          (let quantity = calculatePositionSize rm (cash alpacaBalance) (currentPrice sg)
           in if js_lt quantity (Fin 1) then ([], Inr None)
              else (case a_buy (alpaca w) (symbol sg) quantity of
                      Inl error \<Rightarrow> ([Buy Alpaca (symbol sg) quantity], Inl error)
                    | Inr placed \<Rightarrow> ([Buy Alpaca (symbol sg) quantity], Inr (Some placed)))))"

definition executeBuyCrypto ::
  "world \<Rightarrow> RiskManager \<Rightarrow> scan_signal \<Rightarrow> action list \<times> (exn + order option)" where
  "executeBuyCrypto w rm sg =
     (case k_getBalance (kraken w) of
        Inl error \<Rightarrow> ([], Inl error)
      | Inr krakenBalance \<Rightarrow>
          (let quantity =
                 calculateCryptoPositionSize rm (total krakenBalance) (currentPrice sg);
               minOrder = k_getMinOrderSize (kraken w) (symbol sg)
           in if js_lt quantity minOrder then ([], Inr None)
              else (case k_buy (kraken w) (symbol sg) quantity of
                      Inl error \<Rightarrow> ([Buy Kraken (symbol sg) quantity], Inl error)
                    | Inr placed \<Rightarrow> ([Buy Kraken (symbol sg) quantity], Inr (Some placed)))))"

text \<open>
  The loop of \<open>executeTrades\<close> over the first three opportunities. Its state: the count
  \<open>stats.tradesExecuted\<close>, the position list of the cycle, and the orders given so far.
  \<open>executeTrade\<close> is the body of the loop for one opportunity. The parameter \<open>balance\<close> of
  the source is never read and is left out.
\<close>

record trade_state =
  ts_tradesExecuted :: nat
  ts_positions :: "position list"
  ts_orders :: "action list"

definition provisional :: "scan_signal \<Rightarrow> position" where
  "provisional opp =
     \<lparr> pos_symbol = symbol opp, pos_exchange = exchange opp,
       profitLoss = None, profitLossPercent = None \<rparr>"

definition traded :: "trade_state \<Rightarrow> scan_signal \<Rightarrow> action list \<Rightarrow> trade_state" where
  "traded ts opp acts =
     \<lparr> ts_tradesExecuted = ts_tradesExecuted ts + 1,
       ts_positions = ts_positions ts @ [provisional opp],
       ts_orders = ts_orders ts @ acts \<rparr>"

definition executeTrade ::
  "world \<Rightarrow> RiskManager \<Rightarrow> scan_signal \<Rightarrow> trade_state \<Rightarrow> trade_state" where
  "executeTrade w rm opp ts =
     (if \<not> canOpenPosition rm (ts_positions ts) (exchange opp) then ts
      else if list_ex (\<lambda>p. pos_symbol p = symbol opp) (ts_positions ts) then ts
      else (case exchange opp of
              Alpaca \<Rightarrow>
                if \<not> a_isMarketOpen (alpaca w) then ts
                else (case executeBuyStock w rm opp of
                        (acts, Inl error) \<Rightarrow> ts \<lparr> ts_orders := ts_orders ts @ acts \<rparr>
                      | (acts, Inr placed) \<Rightarrow> traded ts opp acts)
            | Kraken \<Rightarrow>
                (case executeBuyCrypto w rm opp of
                   (acts, Inl error) \<Rightarrow> ts \<lparr> ts_orders := ts_orders ts @ acts \<rparr>
                 | (acts, Inr placed) \<Rightarrow> traded ts opp acts)))"

fun executeTrades_loop ::
  "world \<Rightarrow> RiskManager \<Rightarrow> scan_signal list \<Rightarrow> trade_state \<Rightarrow> trade_state" where
  "executeTrades_loop w rm [] ts = ts"
| "executeTrades_loop w rm (opp # opps) ts =
     executeTrades_loop w rm opps (executeTrade w rm opp ts)"

definition executeTrades ::
  "world \<Rightarrow> RiskManager \<Rightarrow> scan_signal list \<Rightarrow> position list \<Rightarrow> nat \<Rightarrow> trade_state" where
  "executeTrades w rm opportunities currentPositions executed =
     executeTrades_loop w rm (take 3 opportunities)
       \<lparr> ts_tradesExecuted = executed, ts_positions = currentPositions, ts_orders = [] \<rparr>"

subsection \<open>Closing\<close>

text \<open>
  \<open>closePosition\<close> closes on the position's venue and then prints the position's
  \<open>profitLoss\<close>, which throws when the position has none.
\<close>

definition closePosition :: "world \<Rightarrow> position \<Rightarrow> action list \<times> (exn + unit)" where
  "closePosition w pos =
     (case (case pos_exchange pos of
              Alpaca \<Rightarrow> a_closePosition (alpaca w) (pos_symbol pos)
            | Kraken \<Rightarrow> k_closePosition (kraken w) (pos_symbol pos)) of
        Inl error \<Rightarrow> ([ClosePosition (pos_exchange pos) (pos_symbol pos)], Inl error)
      | Inr ok \<Rightarrow>
          ([ClosePosition (pos_exchange pos) (pos_symbol pos)],
           (case profitLoss pos of
              None \<Rightarrow> Inl (Error ''TypeError'')
            | Some pl \<Rightarrow> Inr ())))"

text \<open>\<open>checkPositions\<close>: an error of one closing is caught and the loop goes on.\<close>

fun checkPositions :: "world \<Rightarrow> RiskManager \<Rightarrow> position list \<Rightarrow> action list" where
  "checkPositions w rm [] = []"
| "checkPositions w rm (pos # ps) =
     (if shouldClosePosition rm pos then fst (closePosition w pos) else [])
       @ checkPositions w rm ps"

fun closeKrakenPositions :: "kraken_service \<Rightarrow> position list \<Rightarrow> action list \<times> (exn + unit)"
  where
  "closeKrakenPositions k [] = ([], Inr ())"
| "closeKrakenPositions k (pos # ps) =
     (case k_closePosition k (pos_symbol pos) of
        Inl error \<Rightarrow> ([ClosePosition Kraken (pos_symbol pos)], Inl error)
      | Inr ok \<Rightarrow>
          (case closeKrakenPositions k ps of
             (acts, r) \<Rightarrow> (ClosePosition Kraken (pos_symbol pos) # acts, r)))"

definition closeAllPositions :: "world \<Rightarrow> action list \<times> (exn + unit)" where
  "closeAllPositions w =
     (case a_closeAllPositions (alpaca w) of
        Inl error \<Rightarrow> ([CloseAllPositions], Inl error)
      | Inr ok \<Rightarrow>
          (case closeKrakenPositions (kraken w) (k_getPositions (kraken w)) of
             (acts, r) \<Rightarrow> (CloseAllPositions # acts, r)))"

subsection \<open>The cycle\<close>

text \<open>
  \<open>runScanCycle\<close>. A cycle returns at once unless the bot is running. Everything after
  that is in a \<open>try\<close>; its \<open>catch\<close> counts an error. What can throw there is the fetch of
  the balances and the closing of all positions: \<open>isMarketOpen\<close> and \<open>getPositions\<close> catch
  their errors, the scanner and \<open>checkPositions\<close> and \<open>executeTrades\<close> catch theirs.
\<close>

definition cycle_error :: "TradingBot \<Rightarrow> TradingBot" where
  "cycle_error tb = tb \<lparr> stats := (stats tb) \<lparr> errors := errors (stats tb) + 1 \<rparr> \<rparr>"

definition runScanCycle :: "TradingBot \<Rightarrow> world \<Rightarrow> TradingBot \<times> action list" where
  "runScanCycle tb w =
     (if status tb \<noteq> Running then (tb, [])
      else (case getTotalBalance w of
              Inl error \<Rightarrow> (cycle_error tb, [])
            | Inr balance \<Rightarrow>
                (let positions = getAllPositions w;
                     rm = updateDailyPnL (riskManager tb) balance;
                     bot1 = tb \<lparr> riskManager := rm \<rparr>
                 in if shouldStopTrading rm then (stop bot1, [])
                    else if checkCircuitBreaker rm balance then
                      (case closeAllPositions w of
                         (acts, Inl error) \<Rightarrow> (cycle_error bot1, acts)
                       | (acts, Inr ok) \<Rightarrow> (stop bot1, acts))
                    else
                      (let closes = checkPositions w rm positions;
                           scanResults = scanAll (alpaca w) (kraken w) (strategy bot1)
                                           (stockSymbols bot1) (cryptoConfigs bot1);
                           bot2 = bot1 \<lparr> stats := (stats bot1)
                                    \<lparr> lastScanTime := Some (w_now w),
                                      lastSignals := sr_all scanResults \<rparr> \<rparr>;
                           opportunities =
                             findBestOpportunities (sr_buy scanResults) (Fin 50) 5
                       in if 0 < length opportunities then
                            (let ts = executeTrades w rm opportunities positions
                                        (tradesExecuted (stats bot2))
                             in (bot2 \<lparr> stats := (stats bot2)
                                       \<lparr> tradesExecuted := ts_tradesExecuted ts \<rparr> \<rparr>,
                                 closes @ ts_orders ts))
                          else (bot2, closes)))))"

text \<open>
  \<open>start\<close> returns \<open>false\<close> or \<open>true\<close>, or throws what the fetch of the balances throws.
\<close>

definition start ::
  "TradingBot \<Rightarrow> world \<Rightarrow> string list \<Rightarrow> crypto_config list
     \<Rightarrow> (TradingBot \<times> action list) \<times> (exn + bool)" where
  "start tb w stockSyms cryptoCfgs =
     (if status tb = Running then ((tb, []), Inr False)
      else (let alpacaOk = a_testConnection (alpaca w);
                krakenOk = k_testConnection (kraken w)
            in if \<not> alpacaOk \<or> \<not> krakenOk then ((tb, []), Inr False)
               else (case getTotalBalance w of
                       Inl error \<Rightarrow> ((tb, []), Inl error)
                     | Inr balance \<Rightarrow>
                         (let bot1 = tb \<lparr> riskManager :=
                                           resetDailyStats (riskManager tb) (w_today w) balance,
                                         status := Running,
                                         stockSymbols := stockSyms,
                                         cryptoConfigs := cryptoCfgs \<rparr>
                          in (case runScanCycle bot1 w of
                                (bot2, acts) \<Rightarrow>
                                  ((bot2 \<lparr> scanInterval := True \<rparr>, acts), Inr True))))))"

subsection \<open>Runs\<close>

text \<open>
  What reaches the bot: a tick of a timer, with the world it finds, or a call of \<open>pause\<close>,
  \<open>stop\<close> or \<open>start\<close>. A tick may come at any time, whatever timers there are. A cycle is
  taken as one step: the guard of \<open>runScanCycle\<close> is its first statement, evaluated when
  the tick arrives.
\<close>

datatype event =
  Tick world | PauseCall | StopCall | StartCall world "string list" "crypto_config list"

fun is_start :: "event \<Rightarrow> bool" where
  "is_start (StartCall w ss cs) = True"
| "is_start ev = False"

fun step :: "TradingBot \<Rightarrow> event \<Rightarrow> TradingBot \<times> action list" where
  "step tb (Tick w) = runScanCycle tb w"
| "step tb PauseCall = (fst (pause tb), [])"
| "step tb StopCall = (stop tb, [])"
| "step tb (StartCall w ss cs) = fst (start tb w ss cs)"

fun run :: "TradingBot \<Rightarrow> event list \<Rightarrow> TradingBot" where
  "run tb [] = tb"
| "run tb (ev # evs) = run (fst (step tb ev)) evs"

text \<open>
  \<open>ticks_idle tb evs\<close>: in the run of \<open>evs\<close> from \<open>tb\<close>, every tick leaves the bot as it finds
  it and gives no order.
\<close>

fun ticks_idle :: "TradingBot \<Rightarrow> event list \<Rightarrow> bool" where
  "ticks_idle tb [] = True"
| "ticks_idle tb (Tick w # evs) =
     (runScanCycle tb w = (tb, []) \<and> ticks_idle tb evs)"
| "ticks_idle tb (ev # evs) = ticks_idle (fst (step tb ev)) evs"

subsection \<open>Worlds for the examples\<close>

text \<open>
  A world in which both services are connected and the market is open, with the given
  balances, no open position and no price history; and the same world with the equities
  service out of reach.
\<close>

definition quiet_alpaca :: "jsnum \<Rightarrow> alpaca_service" where
  "quiet_alpaca v =
     \<lparr> a_testConnection = True,
       a_getBalance = Inr \<lparr> cash = v, equity = v, buyingPower = v, portfolioValue = v \<rparr>,
       a_isMarketOpen = True,
       a_getCurrentPrice = (\<lambda>s. Inr None),
       a_getHistoricalData = (\<lambda>s. Inr []),
       a_buy = (\<lambda>s q. Inr \<lparr> order_id = ''1'', order_status = ''accepted'' \<rparr>),
       a_getPositions = [],
       a_closePosition = (\<lambda>s. Inr True),
       a_closeAllPositions = Inr True \<rparr>"

definition quiet_kraken :: "jsnum \<Rightarrow> kraken_service" where
  "quiet_kraken v =
     \<lparr> k_testConnection = True,
       k_getBalance = Inr \<lparr> total = v \<rparr>,
       k_getAvailableSymbol = (\<lambda>s f. Inr (Some s)),
       k_getCurrentPrice = (\<lambda>s. Inr None),
       k_getHistoricalData = (\<lambda>s. Inr []),
       k_buy = (\<lambda>s q. Inr \<lparr> order_id = ''2'', order_status = ''closed'' \<rparr>),
       k_getPositions = [],
       k_closePosition = (\<lambda>s. Inr True),
       k_getMinOrderSize = (\<lambda>s. fl (1 / 100)) \<rparr>"

definition quiet_world :: "jsnum \<Rightarrow> jsnum \<Rightarrow> world" where
  "quiet_world va vk =
     \<lparr> alpaca = quiet_alpaca va, kraken = quiet_kraken vk,
       w_today = ''Mon Nov 02 2026'', w_now = 0 \<rparr>"

definition offline_world :: world where
  "offline_world =
     (quiet_world (Fin 5000) (Fin 0))
       \<lparr> alpaca := (quiet_alpaca (Fin 5000)) \<lparr> a_testConnection := False \<rparr> \<rparr>"

text \<open>A bot built yesterday, the same bot started today on a balance of 5000, and on 2000.\<close>

definition new_bot :: TradingBot where
  "new_bot = TradingBot_new (RiskManager_new env_unset ''Sun Nov 01 2026'')
               \<lparr> rsiPeriod = None, rsiOversold = NaN, rsiOverbought = NaN \<rparr>"

definition running_bot :: TradingBot where
  "running_bot = fst (fst (start new_bot (quiet_world (Fin 5000) (Fin 0)) [] []))"

definition small_bot :: TradingBot where
  "small_bot = fst (fst (start new_bot (quiet_world (Fin 2000) (Fin 0)) [] []))"

text \<open>A risk manager built yesterday whose session is opened today on the balance \<open>s\<close>.\<close>

definition session_at :: "real \<Rightarrow> RiskManager" where
  "session_at s =
     resetDailyStats (RiskManager_new env_unset ''Sun Nov 01 2026'') ''Mon Nov 02 2026'' (Fin s)"

text \<open>
  A crypto candidate whose size, on a crypto balance of 1000, is the least size 0.001,
  below the venue's minimum of 0.01; a stock candidate; and a world whose market is closed.
\<close>

definition dust_candidate :: scan_signal where
  "dust_candidate =
     \<lparr> symbol = ''BTC/EUR'', exchange = Kraken, asset_type = crypto,
       currentPrice = Fin 50000, rsi = Fin 12, signal = BUY, strength = Fin 60 \<rparr>"

definition stock_candidate :: scan_signal where
  "stock_candidate =
     \<lparr> symbol = ''AAPL'', exchange = Alpaca, asset_type = stock,
       currentPrice = Fin 100, rsi = Fin 12, signal = BUY, strength = Fin 60 \<rparr>"

definition closed_market_world :: world where
  "closed_market_world =
     (quiet_world (Fin 5000) (Fin 1000))
       \<lparr> alpaca := (quiet_alpaca (Fin 5000)) \<lparr> a_isMarketOpen := False \<rparr> \<rparr>"

text \<open>
  An equities service on which the fetch of the price history throws for \<open>AAPL\<close>, answers
  five bars for \<open>TSLA\<close> and twenty bars for every other stock, and every stock has a
  price; the world with this service, and the running bot with three stocks to scan.
\<close>

definition one_bad_alpaca :: alpaca_service where
  "one_bad_alpaca =
     (quiet_alpaca (Fin 5000))
       \<lparr> a_getCurrentPrice := (\<lambda>s. Inr (Some (Fin 10))),
         a_getHistoricalData :=
           (\<lambda>s. if s = ''AAPL'' then Inl (Error ''timeout'')
                else if s = ''TSLA'' then Inr (flat_series 5 10)
                else Inr (flat_series 20 10)) \<rparr>"

definition one_bad_world :: world where
  "one_bad_world = (quiet_world (Fin 5000) (Fin 0)) \<lparr> alpaca := one_bad_alpaca \<rparr>"

definition scanning_bot :: TradingBot where
  "scanning_bot = running_bot \<lparr> stockSymbols := [''AAPL'', ''MSFT'', ''TSLA''] \<rparr>"

text \<open>
  A crypto service on which the symbol lookup throws for \<open>ETH/EUR\<close> and finds every other
  pair, each with twenty bars and a price; and two pairs.
\<close>

definition one_bad_kraken :: kraken_service where
  "one_bad_kraken =
     (quiet_kraken (Fin 0))
       \<lparr> k_getAvailableSymbol :=
           (\<lambda>s f. if s = ''ETH/EUR'' then Inl (Error ''down'') else Inr (Some s)),
         k_getCurrentPrice := (\<lambda>s. Inr (Some (Fin 50000))),
         k_getHistoricalData := (\<lambda>s. Inr (flat_series 20 50000)) \<rparr>"

definition btc :: crypto_config where
  "btc = \<lparr> cfg_symbol = ''BTC/EUR'', cfg_fallback = ''BTC/USD'' \<rparr>"

definition eth :: crypto_config where
  "eth = \<lparr> cfg_symbol = ''ETH/EUR'', cfg_fallback = ''ETH/USD'' \<rparr>"

section \<open>Properties of the rounding\<close>

lemma pow2_pos [simp]: "0 < pow2 e"
  by (simp add: pow2_def)

lemma pow2_0 [simp]: "pow2 0 = 1"
  by (simp add: pow2_def)

lemma pow2_Suc: "pow2 (e + 1) = 2 * pow2 e"
proof (cases "0 \<le> e")
  case True
  then show ?thesis by (simp add: pow2_def nat_add_distrib)
next
  case False
  then have "nat (- e) = Suc (nat (- (e + 1)))" by simp
  then have "(2::real) ^ nat (- e) = 2 * 2 ^ nat (- (e + 1))" by simp
  with False show ?thesis by (simp add: pow2_def)
qed

lemma pow2_pred: "pow2 (e - 1) = pow2 e / 2"
  using pow2_Suc [of "e - 1"] by simp

lemma pow2_neg_nat: "pow2 (- int k) = 1 / 2 ^ k"
  by (simp add: pow2_def)

lemma pow2_mono: "a \<le> b \<Longrightarrow> pow2 a \<le> pow2 b"
proof -
  assume "a \<le> b"
  then obtain k where b: "b = a + int k"
    by (metis zle_iff_zadd)
  have "pow2 a \<le> pow2 (a + int k)"
  proof (induction k)
    case 0
    then show ?case by simp
  next
    case (Suc k)
    have "a + int (Suc k) = (a + int k) + 1" by simp
    then have "pow2 (a + int (Suc k)) = 2 * pow2 (a + int k)"
      by (simp only: pow2_Suc)
    with Suc pow2_pos [of "a + int k"] show ?case by linarith
  qed
  with b show ?thesis by simp
qed

lemma round_even_int [simp]: "round_even (of_int n) = n"
  by (simp add: round_even_def)

lemma round_even_err: "\<bar>of_int (round_even x) - x\<bar> \<le> 1 / 2"
  unfolding round_even_def Let_def by (auto; linarith)

lemma round_even_nonneg: "0 \<le> x \<Longrightarrow> 0 \<le> round_even x"
  unfolding round_even_def Let_def by (auto; linarith)

lemma round_even_mono_le: "x \<le> of_int n \<Longrightarrow> round_even x \<le> n"
  unfolding round_even_def Let_def by (auto; linarith)

lemma round_even_mono_ge: "of_int n \<le> x \<Longrightarrow> n \<le> round_even x"
  unfolding round_even_def Let_def by (auto; linarith)

lemma scale_down_id: "m < 2 ^ 53 \<Longrightarrow> scale_down m e = (m, e)"
  by (subst scale_down.simps) simp

lemma scale_up_steps:
  "2 ^ 52 \<le> m * 2 ^ k \<Longrightarrow> m * 2 ^ k < 2 ^ 53 \<Longrightarrow> - 1074 \<le> e - int k
   \<Longrightarrow> scale_up m e = (m * 2 ^ k, e - int k)"
proof (induction k arbitrary: m e)
  case 0
  then show ?case by (subst scale_up.simps) simp
next
  case (Suc k)
  have pos: "0 < m"
  proof (rule ccontr)
    assume "\<not> 0 < m"
    then have "m * 2 ^ Suc k \<le> 0" by (simp add: mult_le_0_iff)
    with Suc.prems(1) show False by simp
  qed
  have "(1::real) \<le> 2 ^ k" by simp
  then have "m * 2 * 1 \<le> m * 2 * 2 ^ k"
    using pos by (intro mult_left_mono) simp_all
  with Suc.prems(2) have "m * 2 < 2 ^ 53" by (simp add: mult.assoc)
  then have lt: "m < 2 ^ 52" by simp
  from Suc.prems(3) have e: "- 1074 < e" by simp
  have "scale_up (2 * m) (e - 1) = (2 * m * 2 ^ k, e - 1 - int k)"
    using Suc.prems by (intro Suc.IH) (simp_all add: mult.assoc mult.left_commute)
  with lt e show ?case
    by (subst scale_up.simps) (simp add: mult.assoc mult.left_commute)
qed

lemma fl_normal:
  assumes "2 ^ 52 \<le> \<bar>x\<bar> * 2 ^ k" and "\<bar>x\<bar> * 2 ^ k < 2 ^ 53" and "k \<le> 1074"
  shows "fl x = Fin (sgn x * of_int (round_even (\<bar>x\<bar> * 2 ^ k)) / 2 ^ k)"
proof -
  have nz: "x \<noteq> 0" using assms(1) by auto
  have "(1::real) \<le> 2 ^ k" by simp
  then have "\<bar>x\<bar> \<le> \<bar>x\<bar> * 2 ^ k"
    by (simp add: mult_le_cancel_left1)
  with assms(2) have small: "\<bar>x\<bar> < 2 ^ 53" by linarith
  have d: "scale_down \<bar>x\<bar> 0 = (\<bar>x\<bar>, 0)"
    by (rule scale_down_id [OF small])
  have u: "scale_up \<bar>x\<bar> 0 = (\<bar>x\<bar> * 2 ^ k, 0 - int k)"
    using assms by (intro scale_up_steps) simp_all
  let ?n = "round_even (\<bar>x\<bar> * 2 ^ k)"
  have "?n \<le> 2 ^ 53"
    using assms(2) round_even_mono_le [of "\<bar>x\<bar> * 2 ^ k" "2 ^ 53"] by simp
  then have "(of_int ?n :: real) \<le> 2 ^ 53"
    by (metis of_int_le_iff of_int_numeral of_int_power)
  moreover have "0 \<le> (of_int ?n :: real)"
    using round_even_nonneg [of "\<bar>x\<bar> * 2 ^ k"] by simp
  moreover have "(1::real) \<le> 2 ^ k" by simp
  ultimately have "of_int ?n / 2 ^ k \<le> (2 ^ 53 :: real) / 1"
    by (intro frac_le) simp_all
  then have "of_int ?n / 2 ^ k \<le> (2 ^ 53 :: real)" by simp
  then have no: "\<not> (2 ^ 1024 \<le> of_int ?n / (2 ^ k :: real))"
    by simp
  show ?thesis
    using nz no by (simp add: fl_def d u pow2_neg_nat Let_def)
qed

lemma fl_exactI:
  assumes "2 ^ 52 \<le> \<bar>x\<bar> * 2 ^ k" and "\<bar>x\<bar> * 2 ^ k < 2 ^ 53" and "k \<le> 1074"
    and "\<bar>x\<bar> * 2 ^ k \<in> \<int>"
  shows "fl x = Fin x"
proof -
  from assms(4) obtain n :: int where n: "\<bar>x\<bar> * 2 ^ k = of_int n"
    by (auto elim: Ints_cases)
  have "sgn x * of_int (round_even (\<bar>x\<bar> * 2 ^ k)) / 2 ^ k = sgn x * (\<bar>x\<bar> * 2 ^ k) / 2 ^ k"
    by (simp add: n)
  also have "\<dots> = sgn x * \<bar>x\<bar>" by simp
  also have "\<dots> = x" by (simp add: sgn_mult_abs)
  finally show ?thesis
    using fl_normal [OF assms(1,2,3)] by simp
qed

lemma fl_0 [simp]: "fl 0 = Fin 0"
  by (simp add: fl_def)

lemma fl_minus: "fl (- x) = js_neg (fl x)"
  by (cases "scale_down \<bar>x\<bar> 0"; cases "scale_up (fst (scale_down \<bar>x\<bar> 0)) (snd (scale_down \<bar>x\<bar> 0))")
     (auto simp: fl_def Let_def sgn_if)

lemma scale_down_inv:
  "0 < m \<Longrightarrow> scale_down m e = (m', e') \<Longrightarrow>
     m' * pow2 e' = m * pow2 e \<and> 0 < m' \<and> m' < 2 ^ 53
     \<and> (2 ^ 52 \<le> m \<longrightarrow> 2 ^ 52 \<le> m') \<and> e \<le> e'"
proof (induction m e rule: scale_down.induct)
  case (1 m e)
  show ?case
  proof (cases "2 ^ 53 \<le> m")
    case True
    then have s: "scale_down (m / 2) (e + 1) = (m', e')"
      using "1.prems"(2) by (subst (asm) scale_down.simps) simp
    from "1.IH" [OF True _ s] "1.prems"(1)
    have ih: "m' * pow2 e' = m / 2 * pow2 (e + 1)" "0 < m'" "m' < 2 ^ 53"
      "2 ^ 52 \<le> m / 2 \<longrightarrow> 2 ^ 52 \<le> m'" "e + 1 \<le> e'"
      by simp_all
    from True have "2 ^ 52 \<le> m / 2" by simp
    with ih show ?thesis by (simp add: pow2_Suc)
  next
    case False
    then have "(m', e') = (m, e)"
      using "1.prems"(2) by (subst (asm) scale_down.simps) simp
    with False "1.prems"(1) show ?thesis by simp
  qed
qed

lemma scale_up_inv:
  "0 < m \<Longrightarrow> scale_up m e = (m', e') \<Longrightarrow>
     m' * pow2 e' = m * pow2 e \<and> 0 < m' \<and> (m < 2 ^ 53 \<longrightarrow> m' < 2 ^ 53)
     \<and> (2 ^ 52 \<le> m' \<or> e' \<le> - 1074) \<and> (- 1074 \<le> e \<longrightarrow> - 1074 \<le> e')"
proof (induction m e rule: scale_up.induct)
  case (1 m e)
  show ?case
  proof (cases "m < 2 ^ 52 \<and> - 1074 < e")
    case True
    then have s: "scale_up (2 * m) (e - 1) = (m', e')"
      using "1.prems"(2) by (subst (asm) scale_up.simps) simp
    from "1.IH" [OF True _ s] "1.prems"(1)
    have ih: "m' * pow2 e' = 2 * m * pow2 (e - 1)" "0 < m'"
      "2 * m < 2 ^ 53 \<longrightarrow> m' < 2 ^ 53" "2 ^ 52 \<le> m' \<or> e' \<le> - 1074"
      "- 1074 \<le> e - 1 \<longrightarrow> - 1074 \<le> e'"
      by simp_all
    from True have "2 * m < 2 ^ 53" by simp
    with ih True show ?thesis by (simp add: pow2_pred)
  next
    case False
    then have "scale_up m e = (m, e)"
      by (subst scale_up.simps) auto
    with "1.prems"(2) have "m' = m" "e' = e" by simp_all
    with False "1.prems"(1) show ?thesis by auto
  qed
qed

text \<open>The normal form of a number that is not zero.\<close>

lemma fl_cases:
  assumes "x \<noteq> 0"
  obtains m e where "0 < m" and "m < 2 ^ 53" and "m * pow2 e = \<bar>x\<bar>"
    and "2 ^ 52 \<le> m \<or> e = - 1074" and "- 1074 \<le> e"
    and "fl x = (if 2 ^ 1024 \<le> of_int (round_even m) * pow2 e
                 then (if 0 < x then PosInf else NegInf)
                 else Fin (sgn x * (of_int (round_even m) * pow2 e)))"
proof -
  obtain m1 e1 where d: "scale_down \<bar>x\<bar> 0 = (m1, e1)" by fastforce
  obtain m e where u: "scale_up m1 e1 = (m, e)" by fastforce
  have px: "0 < \<bar>x\<bar>" using assms by simp
  from scale_down_inv [OF px d]
  have d': "m1 * pow2 e1 = \<bar>x\<bar>" "0 < m1" "m1 < 2 ^ 53" "0 \<le> e1"
    by simp_all
  from scale_up_inv [OF d'(2) u] d'
  have u': "m * pow2 e = \<bar>x\<bar>" "0 < m" "m < 2 ^ 53" "2 ^ 52 \<le> m \<or> e \<le> - 1074"
    "- 1074 \<le> e"
    by simp_all
  then have "2 ^ 52 \<le> m \<or> e = - 1074" by auto
  moreover have "fl x = (if 2 ^ 1024 \<le> of_int (round_even m) * pow2 e
                 then (if 0 < x then PosInf else NegInf)
                 else Fin (sgn x * (of_int (round_even m) * pow2 e)))"
    using assms by (simp add: fl_def d u Let_def)
  ultimately show ?thesis using that u' by blast
qed

lemma fl_nonneg:
  assumes "0 \<le> x"
  shows "fl x = PosInf \<or> (\<exists>y. fl x = Fin y \<and> 0 \<le> y)"
proof (cases "x = 0")
  case True
  then show ?thesis by simp
next
  case False
  then obtain m e where m: "0 < m"
    and f: "fl x = (if 2 ^ 1024 \<le> of_int (round_even m) * pow2 e
                 then (if 0 < x then PosInf else NegInf)
                 else Fin (sgn x * (of_int (round_even m) * pow2 e)))"
    by (rule fl_cases)
  have "0 \<le> round_even m" using m by (intro round_even_nonneg) simp
  then have "0 \<le> of_int (round_even m) * pow2 e"
    by (simp add: less_imp_le)
  with f assms False show ?thesis by (auto simp: sgn_if)
qed

text \<open>
  The error of rounding: in the normal range it is at most \<open>2^-53\<close> of the number, and the
  sign stays.
\<close>

lemma fl_rel_err:
  assumes lo: "1 / 2 ^ 1022 \<le> \<bar>x\<bar>" and hi: "\<bar>x\<bar> < 2 ^ 1023"
  shows "\<exists>y. fl x = Fin y \<and> \<bar>y - x\<bar> \<le> \<bar>x\<bar> / 2 ^ 53 \<and> sgn y = sgn x"
proof -
  have nz: "x \<noteq> 0" using lo by auto
  then obtain m e where m: "0 < m" "m < 2 ^ 53" and me: "m * pow2 e = \<bar>x\<bar>"
    and c: "2 ^ 52 \<le> m \<or> e = - 1074" and e: "- 1074 \<le> e"
    and f: "fl x = (if 2 ^ 1024 \<le> of_int (round_even m) * pow2 e
                 then (if 0 < x then PosInf else NegInf)
                 else Fin (sgn x * (of_int (round_even m) * pow2 e)))"
    by (rule fl_cases)
  have big: "2 ^ 52 \<le> m"
  proof (rule ccontr)
    assume n: "\<not> 2 ^ 52 \<le> m"
    with c have "e = - 1074" by simp
    then have "pow2 e = 1 / 2 ^ 1074" by (simp add: pow2_def)
    with me have "\<bar>x\<bar> = m / 2 ^ 1074" by simp
    also have "\<dots> < 2 ^ 52 / 2 ^ 1074" using n by (simp add: divide_strict_right_mono)
    also have "\<dots> = (1::real) / 2 ^ 1022" by simp
    finally show False using lo by simp
  qed
  let ?n = "of_int (round_even m) :: real"
  let ?y = "?n * pow2 e"
  have err: "\<bar>?n - m\<bar> \<le> 1 / 2" by (rule round_even_err)
  have "?y - \<bar>x\<bar> = (?n - m) * pow2 e"
    using me by (simp add: left_diff_distrib)
  then have "\<bar>?y - \<bar>x\<bar>\<bar> = \<bar>?n - m\<bar> * pow2 e"
    by (simp add: abs_mult less_imp_le)
  also have "\<dots> \<le> 1 / 2 * pow2 e"
    using err by (intro mult_right_mono) (simp_all add: less_imp_le)
  also have "\<dots> \<le> m / 2 ^ 53 * pow2 e"
    using big by (intro mult_right_mono) (simp_all add: less_imp_le)
  also have "\<dots> = \<bar>x\<bar> / 2 ^ 53" using me by simp
  finally have d: "\<bar>?y - \<bar>x\<bar>\<bar> \<le> \<bar>x\<bar> / 2 ^ 53" .
  then have "?y \<le> \<bar>x\<bar> + \<bar>x\<bar> / 2 ^ 53" by linarith
  also have "\<dots> \<le> \<bar>x\<bar> + \<bar>x\<bar>" by (simp add: divide_le_eq)
  also have "\<dots> < 2 ^ 1024" using hi by simp
  finally have no: "\<not> 2 ^ 1024 \<le> ?y" by simp
  have "2 ^ 52 \<le> round_even m"
    using big round_even_mono_ge [of "2 ^ 52" m] by simp
  moreover have "(0::int) < 2 ^ 52" by simp
  ultimately have "0 < round_even m" by (rule less_le_trans [rotated])
  then have ypos: "0 < ?y" by simp
  have fy: "fl x = Fin (sgn x * ?y)" using f no by simp
  have "\<bar>sgn x * ?y - x\<bar> = \<bar>sgn x * (?y - \<bar>x\<bar>)\<bar>"
    by (simp add: right_diff_distrib sgn_mult_abs)
  also have "\<dots> = \<bar>?y - \<bar>x\<bar>\<bar>" using nz by (simp add: abs_mult abs_sgn_eq)
  finally have "\<bar>sgn x * ?y - x\<bar> \<le> \<bar>x\<bar> / 2 ^ 53" using d by simp
  moreover have "sgn (sgn x * ?y) = sgn x"
  proof -
    have s1: "sgn ?y = 1" using ypos by (rule sgn_pos)
    have "sgn (sgn x * ?y) = sgn (sgn x) * sgn ?y" by (rule sgn_mult)
    also have "\<dots> = sgn x" by (simp only: s1 sgn_sgn mult_1_right)
    finally show ?thesis .
  qed
  ultimately show ?thesis using fy by blast
qed

lemma scale_up_shape:
  "scale_up m e = (m', e') \<Longrightarrow> \<exists>k. m' = m * 2 ^ k \<and> e' = e - int k"
proof (induction m e rule: scale_up.induct)
  case (1 m e)
  show ?case
  proof (cases "m < 2 ^ 52 \<and> - 1074 < e")
    case True
    then have "scale_up (2 * m) (e - 1) = (m', e')"
      using "1.prems" by (subst (asm) scale_up.simps) simp
    from "1.IH" [OF True this] obtain k where "m' = 2 * m * 2 ^ k" "e' = e - 1 - int k"
      by blast
    then have "m' = m * 2 ^ Suc k \<and> e' = e - int (Suc k)" by simp
    then show ?thesis by blast
  next
    case False
    then have "scale_up m e = (m, e)"
      by (subst scale_up.simps) auto
    with "1.prems" have "m' = m * 2 ^ 0 \<and> e' = e - int 0" by simp
    then show ?thesis by blast
  qed
qed

text \<open>Every whole number below \<open>2^53\<close> is a binary64 number.\<close>

lemma fl_of_int:
  assumes "\<bar>n\<bar> < 2 ^ 53"
  shows "fl (of_int n) = Fin (of_int n)"
proof (cases "n = 0")
  case True
  then show ?thesis by simp
next
  case False
  let ?x = "of_int n :: real"
  have small: "\<bar>?x\<bar> < 2 ^ 53"
    using assms by (metis of_int_abs of_int_less_iff of_int_numeral of_int_power)
  have d: "scale_down \<bar>?x\<bar> 0 = (\<bar>?x\<bar>, 0)"
    by (rule scale_down_id [OF small])
  obtain m e where u: "scale_up \<bar>?x\<bar> 0 = (m, e)" by fastforce
  from scale_up_shape [OF u] obtain k where m: "m = \<bar>?x\<bar> * 2 ^ k" and e: "e = - int k"
    by auto
  have "m = of_int (\<bar>n\<bar> * 2 ^ k)" by (simp add: m)
  then have r: "round_even m = \<bar>n\<bar> * 2 ^ k" by (simp only: round_even_int)
  have y: "of_int (round_even m) * pow2 e = \<bar>?x\<bar>"
    by (simp add: r e pow2_neg_nat)
  have "\<bar>?x\<bar> < 2 ^ 1024"
    using small by (rule less_trans) simp
  then have no: "\<not> 2 ^ 1024 \<le> \<bar>?x\<bar>" by simp
  have "fl ?x = Fin (sgn ?x * \<bar>?x\<bar>)"
    using False no by (simp add: fl_def d u Let_def y del: of_int_abs)
  then show ?thesis by (simp add: sgn_mult_abs)
qed

lemma fl_numeral [simp]:
  "numeral w < (2 ^ 53 :: int) \<Longrightarrow> fl (numeral w) = Fin (numeral w)"
  using fl_of_int [of "numeral w"] by simp

lemma fl_1 [simp]: "fl 1 = Fin 1"
  using fl_of_int [of 1] by simp

declare fl_minus [simp]


subsection \<open>The error of a chain of operations\<close>

text \<open>
  One more rounding of a number that is within \<open>n\<close> units of the exact one leaves it
  within \<open>n + 1\<close> units, as long as the exact number is in the normal range.
\<close>

lemma near_refl: "near 0 x x"
  by (simp add: near_def)

lemma near_mul: "near n y x \<Longrightarrow> near n (y * c) (x * c)"
proof -
  assume "near n y x"
  then have "\<bar>y - x\<bar> * \<bar>c\<bar> \<le> real n / 2 ^ 52 * \<bar>x\<bar> * \<bar>c\<bar>"
    unfolding near_def by (rule mult_right_mono) simp
  moreover have "\<bar>y * c - x * c\<bar> = \<bar>y - x\<bar> * \<bar>c\<bar>"
    by (simp add: left_diff_distrib [symmetric] abs_mult)
  ultimately show ?thesis
    by (simp add: near_def abs_mult mult.assoc)
qed

lemma near_div: "near n y x \<Longrightarrow> near n (y / c) (x / c)"
  using near_mul [of n y x "1 / c"] by simp

lemma near_fl:
  assumes n: "near n y x" and small: "n \<le> 8"
    and lo: "1 / 2 ^ 1021 \<le> \<bar>x\<bar>" and hi: "\<bar>x\<bar> \<le> 2 ^ 1021"
  shows "\<exists>y'. fl y = Fin y' \<and> near (Suc n) y' x"
proof -
  have "real n \<le> 8" using small by simp
  then have "real n / 2 ^ 52 \<le> 8 / 2 ^ 52" by (rule divide_right_mono) simp
  then have nu: "real n / 2 ^ 52 \<le> 1 / 2" by simp
  have "real n / 2 ^ 52 * \<bar>x\<bar> \<le> 1 / 2 * \<bar>x\<bar>"
    using nu by (rule mult_right_mono) simp
  moreover from n have "\<bar>y - x\<bar> \<le> real n / 2 ^ 52 * \<bar>x\<bar>"
    by (simp only: near_def)
  ultimately have d: "\<bar>y - x\<bar> \<le> \<bar>x\<bar> / 2" by linarith
  then have ylo: "\<bar>x\<bar> / 2 \<le> \<bar>y\<bar>" and yhi: "\<bar>y\<bar> \<le> 3 / 2 * \<bar>x\<bar>"
    by linarith+
  have "1 / 2 ^ 1022 \<le> \<bar>x\<bar> / 2" using lo by simp
  with ylo have r1: "1 / 2 ^ 1022 \<le> \<bar>y\<bar>" by linarith
  have "3 / 2 * \<bar>x\<bar> < 2 ^ 1023" using hi by simp
  with yhi have r2: "\<bar>y\<bar> < 2 ^ 1023" by linarith
  from fl_rel_err [OF r1 r2] obtain y' where f: "fl y = Fin y'"
    and e: "\<bar>y' - y\<bar> \<le> \<bar>y\<bar> / 2 ^ 53"
    by blast
  have "\<bar>y\<bar> / 2 ^ 53 \<le> (3 / 2 * \<bar>x\<bar>) / 2 ^ 53"
    using yhi by (rule divide_right_mono) simp
  also have "\<dots> \<le> \<bar>x\<bar> / 2 ^ 52" by simp
  finally have e': "\<bar>y' - y\<bar> \<le> \<bar>x\<bar> / 2 ^ 52" using e by linarith
  have "\<bar>y' - x\<bar> \<le> \<bar>y' - y\<bar> + \<bar>y - x\<bar>" by linarith
  also have "\<dots> \<le> \<bar>x\<bar> / 2 ^ 52 + real n / 2 ^ 52 * \<bar>x\<bar>"
    using e' \<open>\<bar>y - x\<bar> \<le> real n / 2 ^ 52 * \<bar>x\<bar>\<close> by linarith
  also have "\<dots> = real (Suc n) / 2 ^ 52 * \<bar>x\<bar>"
    by (simp add: field_simps)
  finally have "near (Suc n) y' x" by (simp add: near_def)
  with f show ?thesis by blast
qed

subsection \<open>Numbers that are not negative\<close>

text \<open>
  A quotient or a product of numbers that are not negative is not negative: it is zero or
  more, \<open>Infinity\<close> or \<open>NaN\<close>.
\<close>

lemma not_neg_cases:
  "\<not> js_lt a (Fin 0) \<longleftrightarrow> a = NaN \<or> a = PosInf \<or> (\<exists>x. a = Fin x \<and> 0 \<le> x)"
  by (cases a) auto

lemma fl_not_neg: "0 \<le> x \<Longrightarrow> \<not> js_lt (fl x) (Fin 0)"
  using fl_nonneg [of x] by auto

lemma js_div_not_neg:
  assumes "\<not> js_lt a (Fin 0)" and "\<not> js_lt b (Fin 0)"
  shows "\<not> js_lt (js_div a b) (Fin 0)"
proof (cases a)
  case (Fin x)
  with assms(1) have x: "0 \<le> x" by simp
  show ?thesis
  proof (cases b)
    case (Fin y)
    with assms(2) have "0 \<le> y" by simp
    with x have "0 \<le> x / y" by simp
    then have "\<not> js_lt (fl (x / y)) (Fin 0)" by (rule fl_not_neg)
    with x \<open>a = Fin x\<close> Fin show ?thesis by simp
  qed (use Fin assms in simp_all)
next
  case PosInf
  with assms show ?thesis by (cases b) simp_all
next
  case NegInf
  with assms show ?thesis by simp
next
  case NaN
  then show ?thesis by simp
qed

lemma js_mul_not_neg:
  assumes "\<not> js_lt a (Fin 0)" and "\<not> js_lt b (Fin 0)"
  shows "\<not> js_lt (js_mul a b) (Fin 0)"
proof (cases a)
  case (Fin x)
  with assms(1) have x: "0 \<le> x" by simp
  show ?thesis
  proof (cases b)
    case (Fin y)
    with assms(2) have "0 \<le> y" by simp
    with x have "0 \<le> x * y" by simp
    then have "\<not> js_lt (fl (x * y)) (Fin 0)" by (rule fl_not_neg)
    with \<open>a = Fin x\<close> Fin show ?thesis by simp
  next
    case PosInf
    with Fin x show ?thesis by (simp add: sgn_if)
  qed (use Fin assms in simp_all)
next
  case PosInf
  with assms show ?thesis by (cases b) (simp_all add: sgn_if)
next
  case NegInf
  with assms show ?thesis by simp
next
  case NaN
  then show ?thesis by simp
qed

lemma clamp_not_neg:
  assumes "\<not> js_lt r (Fin 0)"
  shows "spec_clamp r (Fin 0) (Fin 100) = js_min r (Fin 100)"
  using assms by (cases r) (simp_all add: spec_clamp_def js_min_def js_max_def)

subsection \<open>Comparisons and roundings of the examples\<close>

lemma js_le_Fin [simp]: "js_le (Fin a) (Fin b) = (a \<le> b)"
  by (auto simp: js_le_def)

lemma js_gt_Fin [simp]: "js_gt (Fin a) (Fin b) = (b < a)"
  by (simp add: js_gt_def)

lemma js_ge_Fin [simp]: "js_ge (Fin a) (Fin b) = (b \<le> a)"
  by (simp add: js_ge_def)

lemma js_sub_Fin [simp]: "js_sub (Fin a) (Fin b) = fl (a - b)"
  by (simp add: js_sub_def)

lemma js_max_Fin [simp]: "js_max (Fin a) (Fin b) = Fin (max a b)"
  by (auto simp: js_max_def)

lemma js_min_Fin [simp]: "js_min (Fin a) (Fin b) = Fin (min a b)"
  by (auto simp: js_min_def)

lemma fl_ex1 [simp]:
  "fl (7881299347898367 / 28147497671065600000) = Fin (2582544170319337 / 9223372036854775808)"
  using fl_normal [of "7881299347898367 / 28147497671065600000" 64] by (simp add: round_even_def)

lemma fl_thousandth [simp]:
  "fl (1 / 1000) = Fin (1152921504606847 / 1152921504606846976)"
  using fl_normal [of "1 / 1000" 62] by (simp add: round_even_def)

lemma fl_ex2 [simp]:
  "fl (7881299347898367 / 788129934789836800) = Fin (2882303761517117 / 288230376151711744)"
  using fl_normal [of "7881299347898367 / 788129934789836800" 59] by (simp add: round_even_def)

lemma fl_hundredth [simp]:
  "fl (1 / 100) = Fin (5764607523034235 / 576460752303423488)"
  using fl_normal [of "1 / 100" 59] by (simp add: round_even_def)

lemma fl_ex3 [simp]:
  "fl (3152519739159347 / 225179981368524800) = Fin (1008806316530991 / 72057594037927936)"
  using fl_normal [of "3152519739159347 / 225179981368524800" 59] by (simp add: round_even_def)

lemma fl_ex4 [simp]:
  "fl (18173039004871895925237601244545 / 1298074214633706907132624082305024) = Fin (1008806316530991 / 72057594037927936)"
  using fl_normal [of "18173039004871895925237601244545 / 1298074214633706907132624082305024" 59] by (simp add: round_even_def)

lemma fl_ex5 [simp]:
  "fl (2116691824864133 / 112589990684262400) = Fin (1354682767913045 / 72057594037927936)"
  using fl_normal [of "2116691824864133 / 112589990684262400" 58] by (simp add: round_even_def)

lemma fl_ex6 [simp]:
  "fl (12201897617556844489296782593255 / 649037107316853453566312041152512) = Fin (5418731071652181 / 288230376151711744)"
  using fl_normal [of "12201897617556844489296782593255 / 649037107316853453566312041152512" 58] by (simp add: round_even_def)

lemma fl_ex7 [simp]:
  "fl (1 / 50) = Fin (5764607523034235 / 288230376151711744)"
  using fl_normal [of "1 / 50" 58] by (simp add: round_even_def)

lemma fl_ex8 [simp]:
  "fl (6 / 125) = Fin (3458764513820541 / 72057594037927936)"
  using fl_normal [of "6 / 125" 57] by (simp add: round_even_def)

lemma fl_ex9 [simp]:
  "fl (137109099983667 / 2742181999673344) = Fin (7205759403792783 / 144115188075855872)"
  using fl_normal [of "137109099983667 / 2742181999673344" 57] by (simp add: round_even_def)

lemma fl_ex10 [simp]:
  "fl (377176468792279 / 7543529375845581) = Fin (7205759403792793 / 144115188075855872)"
  using fl_normal [of "377176468792279 / 7543529375845581" 57] by (simp add: round_even_def)

lemma fl_ex11 [simp]:
  "fl (13 / 250) = Fin (7493989779944505 / 144115188075855872)"
  using fl_normal [of "13 / 250" 57] by (simp add: round_even_def)

lemma fl_ex12 [simp]:
  "fl (11 / 200) = Fin (7926335344172073 / 144115188075855872)"
  using fl_normal [of "11 / 200" 57] by (simp add: round_even_def)

lemma fl_ex13 [simp]:
  "fl (1 / 3) = Fin (6004799503160661 / 18014398509481984)"
  using fl_normal [of "1 / 3" 54] by (simp add: round_even_def)

lemma fl_ex14 [simp]:
  "fl (1 / 2) = Fin (1 / 2)"
  using fl_normal [of "1 / 2" 53] by (simp add: round_even_def)

lemma fl_ex15 [simp]:
  "fl (377176468792279 / 562949953421312) = Fin (377176468792279 / 562949953421312)"
  using fl_normal [of "377176468792279 / 562949953421312" 53] by (simp add: round_even_def)

lemma fl_ex16 [simp]:
  "fl (4925812092436479 / 7036874417766400) = Fin (6305039478318693 / 9007199254740992)"
  using fl_normal [of "4925812092436479 / 7036874417766400" 53] by (simp add: round_even_def)

lemma fl_seven_tenths [simp]:
  "fl (7 / 10) = Fin (3152519739159347 / 4503599627370496)"
  using fl_normal [of "7 / 10" 53] by (simp add: round_even_def)

lemma fl_ex17 [simp]:
  "fl (47 / 50) = Fin (2116691824864133 / 2251799813685248)"
  using fl_normal [of "47 / 50" 53] by (simp add: round_even_def)

lemma fl_ex18 [simp]:
  "fl (3152519739159347 / 2251799813685248) = Fin (3152519739159347 / 2251799813685248)"
  using fl_normal [of "3152519739159347 / 2251799813685248" 52] by (simp add: round_even_def)

lemma fl_ex19 [simp]:
  "fl (2116691824864133 / 1125899906842624) = Fin (2116691824864133 / 1125899906842624)"
  using fl_normal [of "2116691824864133 / 1125899906842624" 52] by (simp add: round_even_def)

lemma fl_ex20 [simp]:
  "fl (86469112845513525 / 18014398509481984) = Fin (5404319552844595 / 1125899906842624)"
  using fl_normal [of "86469112845513525 / 18014398509481984" 50] by (simp add: round_even_def)

lemma fl_ex21 [simp]:
  "fl (180143985094819575 / 36028797018963968) = Fin (703687441776639 / 140737488355328)"
  using fl_normal [of "180143985094819575 / 36028797018963968" 50] by (simp add: round_even_def)

lemma fl_ex22 [simp]:
  "fl (180143985094819825 / 36028797018963968) = Fin (5)"
  using fl_normal [of "180143985094819825 / 36028797018963968" 50] by (simp add: round_even_def)

lemma fl_ex23 [simp]:
  "fl (187349744498612625 / 36028797018963968) = Fin (5854679515581645 / 1125899906842624)"
  using fl_normal [of "187349744498612625 / 36028797018963968" 50] by (simp add: round_even_def)

lemma fl_ex24 [simp]:
  "fl (198158383604301825 / 36028797018963968) = Fin (11 / 2)"
  using fl_normal [of "198158383604301825 / 36028797018963968" 50] by (simp add: round_even_def)

lemma fl_ex25 [simp]:
  "fl (4925812092436479 / 703687441776640) = Fin (3940649673949183 / 562949953421312)"
  using fl_normal [of "4925812092436479 / 703687441776640" 50] by (simp add: round_even_def)

lemma fl_ex26 [simp]:
  "fl (126100789566373875 / 9007199254740992) = Fin (7881299347898367 / 562949953421312)"
  using fl_normal [of "126100789566373875 / 9007199254740992" 49] by (simp add: round_even_def)

lemma fl_ex27 [simp]:
  "fl (150119987579016525 / 4503599627370496) = Fin (2345624805922133 / 70368744177664)"
  using fl_normal [of "150119987579016525 / 4503599627370496" 47] by (simp add: round_even_def)

lemma fl_ex28 [simp]:
  "fl (630503947831869375 / 9007199254740992) = Fin (4925812092436479 / 70368744177664)"
  using fl_normal [of "630503947831869375 / 9007199254740992" 46] by (simp add: round_even_def)

lemma fl_ex29 [simp]:
  "fl (6614661952700415 / 70368744177664) = Fin (6614661952700415 / 70368744177664)"
  using fl_normal [of "6614661952700415 / 70368744177664" 46] by (simp add: round_even_def)

lemma fl_ex30 [simp]:
  "fl (846676729945653125 / 9007199254740992) = Fin (6614661952700415 / 70368744177664)"
  using fl_normal [of "846676729945653125 / 9007199254740992" 46] by (simp add: round_even_def)

lemma fl_ex31 [simp]:
  "fl (3386706919782613125 / 36028797018963968) = Fin (94)"
  using fl_normal [of "3386706919782613125 / 36028797018963968" 46] by (simp add: round_even_def)

lemma fl_ex32 [simp]:
  "fl (137109099983667 / 137438953472) = Fin (137109099983667 / 137438953472)"
  using fl_normal [of "137109099983667 / 137438953472" 43] by (simp add: round_even_def)

section \<open>Properties of the risk manager\<close>

lemma session_step_keeps:
  assumes "startDate (dailyStats rm) = day"
  shows "startDate (dailyStats (session_step day rm call)) = day
       \<and> startBalance (dailyStats (session_step day rm call)) = startBalance (dailyStats rm)"
  using assms by (cases call) (simp_all add: resetDailyStats_def updateDailyPnL_def)

lemma session_day_keeps:
  assumes "startDate (dailyStats rm) = day"
  shows "startDate (dailyStats (session_day day rm calls)) = day
       \<and> startBalance (dailyStats (session_day day rm calls)) = startBalance (dailyStats rm)"
  using assms unfolding session_day_def
proof (induction calls arbitrary: rm)
  case Nil
  then show ?case by simp
next
  case (Cons call calls)
  from session_step_keeps [OF Cons.prems, of call]
  have d: "startDate (dailyStats (session_step day rm call)) = day"
    and b: "startBalance (dailyStats (session_step day rm call)) = startBalance (dailyStats rm)"
    by simp_all
  from Cons.IH [OF d] b show ?case by simp
qed

lemma startDate_RiskManager_new: "startDate (dailyStats (RiskManager_new c d)) = d"
  by (simp add: RiskManager_new_def)

lemma config_env_unset [simp]:
  "config (RiskManager_new env_unset d) =
     \<lparr> capitalInicial = Fin 5000, lucroMaximoDiario = Fin 500, perdaMaximaDiaria = Fin 200,
       agressividade = Fin 70, maxPosicoes = Fin 5, maxPosicoesStocks = Fin 3,
       maxPosicoesCrypto = Fin 3, stopLossPercent = Fin 2, takeProfitPercent = Fin 4 \<rparr>"
  by (simp add: RiskManager_new_def env_unset_def js_or_def)

lemma agressividade_env_unset:
  "agressividade (config (RiskManager_new env_unset d)) = Fin 70"
  by simp

lemma session_at_simps [simp]:
  "dailyStats (session_at s) =
     \<lparr> startBalance = Fin s, currentPnL = Fin 0, tradesCount = 0,
       startDate = ''Mon Nov 02 2026'' \<rparr>"
  "config (session_at s) = config (RiskManager_new env_unset ''Sun Nov 01 2026'')"
  by (simp_all add: session_at_def resetDailyStats_def startDate_RiskManager_new)

subsection \<open>The circuit breaker\<close>

lemma fl_not_NaN [simp]: "fl x \<noteq> NaN"
  by (auto simp: fl_def Let_def split: prod.splits)

lemma js_mul_100_not_NaN: "v \<noteq> NaN \<Longrightarrow> js_mul v (Fin 100) \<noteq> NaN"
  by (cases v) simp_all

lemma js_div_pos_not_NaN: "v \<noteq> NaN \<Longrightarrow> 0 < s \<Longrightarrow> js_div v (Fin s) \<noteq> NaN"
  by (cases v) simp_all

lemma lossPercent_not_NaN:
  assumes "startBalance (dailyStats rm) = Fin s" and "0 < s"
  shows "lossPercent rm (Fin b) \<noteq> NaN"
proof -
  have "js_sub (Fin b) (Fin s) \<noteq> NaN" by simp
  then have "js_div (js_sub (Fin b) (Fin s)) (Fin s) \<noteq> NaN"
    using assms(2) by (rule js_div_pos_not_NaN)
  then have "js_mul (js_div (js_sub (Fin b) (Fin s)) (Fin s)) (Fin 100) \<noteq> NaN"
    by (rule js_mul_100_not_NaN)
  then show ?thesis unfolding lossPercent_def assms(1) .
qed

lemma not_neg_not_tripped: "\<not> js_lt a (Fin 0) \<Longrightarrow> \<not> js_le a (Fin (- 5))"
  by (cases a) (simp_all add: js_le_def)

lemma lossPercent_not_neg:
  assumes "startBalance (dailyStats rm) = Fin s" and "0 < s" and "s \<le> b"
  shows "\<not> js_lt (lossPercent rm (Fin b)) (Fin 0)"
proof -
  have "\<not> js_lt (fl (b - s)) (Fin 0)"
    using assms(3) by (intro fl_not_neg) simp
  moreover have "\<not> js_lt (Fin s) (Fin 0)" using assms(2) by simp
  ultimately have "\<not> js_lt (js_div (fl (b - s)) (Fin s)) (Fin 0)"
    by (rule js_div_not_neg)
  moreover have "\<not> js_lt (Fin 100) (Fin 0)" by simp
  ultimately have "\<not> js_lt (js_mul (js_div (fl (b - s)) (Fin s)) (Fin 100)) (Fin 0)"
    by (rule js_mul_not_neg)
  then show ?thesis by (simp add: lossPercent_def assms(1))
qed

lemma lossPercent_near:
  assumes sb: "startBalance (dailyStats rm) = Fin s"
    and s: "1 / 2 ^ 500 \<le> s" "s \<le> 2 ^ 500"
    and d: "1 / 2 ^ 500 \<le> \<bar>b - s\<bar>" "\<bar>b - s\<bar> \<le> 2 ^ 500"
  shows "\<exists>p. lossPercent rm (Fin b) = Fin p \<and> near 3 p ((b - s) / s * 100)"
proof -
  have pos: "0 < s" using s(1) by (rule less_le_trans [rotated]) simp
  have "1 / 2 ^ 1021 \<le> \<bar>b - s\<bar>"
    using d(1) by (rule order_trans [rotated]) simp
  moreover have "\<bar>b - s\<bar> \<le> 2 ^ 1021"
    using d(2) by (rule order_trans) simp
  ultimately obtain y1 where f1: "fl (b - s) = Fin y1" and n1: "near 1 y1 (b - s)"
    using near_fl [OF near_refl, of "b - s"] by auto
  have q: "\<bar>(b - s) / s\<bar> = \<bar>b - s\<bar> / s" using pos by simp
  have "(1 / 2 ^ 500) / 2 ^ 500 \<le> \<bar>b - s\<bar> / s"
    using d(1) s(2) pos by (intro frac_le) simp_all
  then have l2: "1 / 2 ^ 1021 \<le> \<bar>(b - s) / s\<bar>"
    unfolding q by (rule order_trans [rotated]) simp
  have "\<bar>b - s\<bar> / s \<le> 2 ^ 500 / (1 / 2 ^ 500)"
    using d(2) s(1) by (intro frac_le) simp_all
  then have h2: "\<bar>(b - s) / s\<bar> \<le> 2 ^ 1021"
    unfolding q by (rule order_trans) simp
  from near_fl [OF near_div [OF n1, of s] _ l2 h2]
  obtain y2 where f2: "fl (y1 / s) = Fin y2" and n2: "near 2 y2 ((b - s) / s)"
    by (auto simp: numeral_2_eq_2)
  have q3: "\<bar>(b - s) / s * 100\<bar> = \<bar>b - s\<bar> / s * 100"
    by (simp only: abs_mult q abs_numeral)
  have "(1 / 2 ^ 500) / 2 ^ 500 * 100 \<le> \<bar>b - s\<bar> / s * 100"
    using \<open>(1 / 2 ^ 500) / 2 ^ 500 \<le> \<bar>b - s\<bar> / s\<close> by (rule mult_right_mono) simp
  then have l3: "1 / 2 ^ 1021 \<le> \<bar>(b - s) / s * 100\<bar>"
    unfolding q3 by (rule order_trans [rotated]) simp
  have "\<bar>b - s\<bar> / s * 100 \<le> 2 ^ 500 / (1 / 2 ^ 500) * 100"
    using \<open>\<bar>b - s\<bar> / s \<le> 2 ^ 500 / (1 / 2 ^ 500)\<close> by (rule mult_right_mono) simp
  then have h3: "\<bar>(b - s) / s * 100\<bar> \<le> 2 ^ 1021"
    unfolding q3 by (rule order_trans) simp
  from near_fl [OF near_mul [OF n2, of 100] _ l3 h3]
  obtain y3 where f3: "fl (y2 * 100) = Fin y3" and n3: "near 3 y3 ((b - s) / s * 100)"
    by (auto simp: numeral_3_eq_3)
  have "lossPercent rm (Fin b) = Fin y3"
    using pos by (simp add: lossPercent_def sb f1 f2 f3)
  with n3 show ?thesis by blast
qed

text \<open>
  Claim C6. With a session start balance \<open>s > 0\<close>, \<open>checkCircuitBreaker\<close> computes
  \<open>lossPercent = (balance - s) / s * 100\<close> in binary64 arithmetic, each of the three
  operations rounding its result, and returns true exactly when that number is at most
  \<open>-5\<close>. The number is never \<open>NaN\<close>, so the comparison decides. The bound is the constant
  \<open>-5\<close> of the code: the result is the same under every configuration. A balance that is
  not below the start balance never trips the breaker. When \<open>s\<close> and the distance of the
  balance from \<open>s\<close> are between \<open>2^-500\<close> and \<open>2^500\<close>, the computed percentage is within
  \<open>3 * 2^-52\<close> of the exact one, relative to it. The witness: with \<open>s = 5000\<close> the breaker
  trips at 4740, where the percentage is the binary64 number \<open>-5.2\<close>, and not at 4760 nor
  at 5000; at the binary64 numbers next to 13.4 and 12.73 the computed percentage is \<open>-5\<close>
  and the breaker trips, though the exact quotient is above \<open>-5\<close>; at 19952 and the
  binary64 number next to 18954.4 it does not trip.
\<close>

theorem checkCircuitBreaker_spec:
  assumes "startBalance (dailyStats rm) = Fin s" and "0 < s"
  shows "lossPercent rm (Fin b) = js_mul (js_div (js_sub (Fin b) (Fin s)) (Fin s)) (Fin 100)
       \<and> (fl (b - s) = Fin d \<and> fl (d / s) = Fin q \<longrightarrow> lossPercent rm (Fin b) = fl (q * 100))
       \<and> lossPercent rm (Fin b) \<noteq> NaN
       \<and> checkCircuitBreaker rm (Fin b) = js_le (lossPercent rm (Fin b)) (Fin (- 5))
       \<and> (lossPercent rm (Fin b) = Fin p \<longrightarrow> checkCircuitBreaker rm (Fin b) = (p \<le> - 5))
       \<and> (s \<le> b \<longrightarrow> \<not> checkCircuitBreaker rm (Fin b))
       \<and> (1 / 2 ^ 500 \<le> s \<and> s \<le> 2 ^ 500 \<and> 1 / 2 ^ 500 \<le> \<bar>b - s\<bar> \<and> \<bar>b - s\<bar> \<le> 2 ^ 500
            \<longrightarrow> (\<exists>r. lossPercent rm (Fin b) = Fin r
                   \<and> \<bar>r - (b - s) / s * 100\<bar> \<le> 3 / 2 ^ 52 * \<bar>(b - s) / s * 100\<bar>))
       \<and> checkCircuitBreaker (rm \<lparr> config := c \<rparr>) (Fin b) = checkCircuitBreaker rm (Fin b)"
proof -
  have a: "lossPercent rm (Fin b) = js_mul (js_div (js_sub (Fin b) (Fin s)) (Fin s)) (Fin 100)"
    by (simp only: lossPercent_def assms(1))
  have b: "fl (b - s) = Fin d \<and> fl (d / s) = Fin q \<longrightarrow> lossPercent rm (Fin b) = fl (q * 100)"
    using assms(2) by (simp add: a)
  have c: "lossPercent rm (Fin b) \<noteq> NaN"
    by (rule lossPercent_not_NaN [OF assms])
  have d: "checkCircuitBreaker rm (Fin b) = js_le (lossPercent rm (Fin b)) (Fin (- 5))"
    by (simp add: checkCircuitBreaker_def)
  have e: "lossPercent rm (Fin b) = Fin p \<longrightarrow> checkCircuitBreaker rm (Fin b) = (p \<le> - 5)"
    by (simp add: d)
  have f: "s \<le> b \<longrightarrow> \<not> checkCircuitBreaker rm (Fin b)"
    using lossPercent_not_neg [OF assms, of b] not_neg_not_tripped [of "lossPercent rm (Fin b)"]
    by (auto simp: d)
  have g: "1 / 2 ^ 500 \<le> s \<and> s \<le> 2 ^ 500 \<and> 1 / 2 ^ 500 \<le> \<bar>b - s\<bar> \<and> \<bar>b - s\<bar> \<le> 2 ^ 500
      \<longrightarrow> (\<exists>r. lossPercent rm (Fin b) = Fin r
             \<and> \<bar>r - (b - s) / s * 100\<bar> \<le> 3 / 2 ^ 52 * \<bar>(b - s) / s * 100\<bar>)"
    using lossPercent_near [OF assms(1), of b] by (auto simp: near_def)
  have h: "checkCircuitBreaker (rm \<lparr> config := c \<rparr>) (Fin b) = checkCircuitBreaker rm (Fin b)"
    by (simp add: checkCircuitBreaker_def lossPercent_def)
  from a b c d e f g h show ?thesis by blast
qed

theorem checkCircuitBreaker_spec_witness:
  "checkCircuitBreaker (session_at 5000) (Fin 4740)
   \<and> lossPercent (session_at 5000) (Fin 4740)
       = Fin (- (5854679515581645 / 1125899906842624))
   \<and> lossPercent (session_at 5000) (Fin 4740)
       = fl (- (7493989779944505 / 144115188075855872) * 100)
   \<and> (\<exists>r. lossPercent (session_at 5000) (Fin 4740) = Fin r
          \<and> \<bar>r - (4740 - 5000) / 5000 * 100\<bar>
              \<le> 3 / 2 ^ 52 * \<bar>(4740 - 5000) / 5000 * 100\<bar>)
   \<and> \<not> checkCircuitBreaker (session_at 5000) (Fin 4760)
   \<and> \<not> checkCircuitBreaker (session_at 5000) (Fin 5000)
   \<and> checkCircuitBreaker (session_at (7543529375845581 / 562949953421312))
         (Fin (3583176453526651 / 281474976710656))
   \<and> - 5 < (3583176453526651 / 281474976710656 - 7543529375845581 / 562949953421312)
             / (7543529375845581 / 562949953421312) * (100 :: real)
   \<and> \<not> checkCircuitBreaker (session_at 19952) (Fin (2605072899689677 / 137438953472))"
proof -
  have s: "startBalance (dailyStats (session_at x)) = Fin x" for x by simp
  note br = checkCircuitBreaker_spec [THEN conjunct2, THEN conjunct2, THEN conjunct2,
      THEN conjunct1]
  have l1: "lossPercent (session_at 5000) (Fin 4740)
      = Fin (- (5854679515581645 / 1125899906842624))"
    by (simp add: lossPercent_def)
  have "checkCircuitBreaker (session_at 5000) (Fin 4740)
      = js_le (lossPercent (session_at 5000) (Fin 4740)) (Fin (- 5))"
    by (rule br [OF s]) simp
  then have a: "checkCircuitBreaker (session_at 5000) (Fin 4740)"
    by (simp add: l1)
  have l2: "lossPercent (session_at 5000) (Fin 4740)
      = fl (- (7493989779944505 / 144115188075855872) * 100)"
  proof (rule checkCircuitBreaker_spec [where s = 5000 and b = 4740 and d = "- 260"
        and q = "- (7493989779944505 / 144115188075855872)",
        THEN conjunct2, THEN conjunct1, THEN mp, OF s])
    show "(0 :: real) < 5000" by simp
    show "fl (4740 - 5000) = Fin (- 260)
        \<and> fl (- 260 / 5000) = Fin (- (7493989779944505 / 144115188075855872))"
      by simp
  qed
  have l3: "\<exists>r. lossPercent (session_at 5000) (Fin 4740) = Fin r
      \<and> \<bar>r - (4740 - 5000) / 5000 * 100\<bar>
          \<le> 3 / 2 ^ 52 * \<bar>(4740 - 5000) / 5000 * 100\<bar>"
  proof (rule checkCircuitBreaker_spec [where s = 5000 and b = 4740,
        THEN conjunct2, THEN conjunct2, THEN conjunct2, THEN conjunct2, THEN conjunct2,
        THEN conjunct2, THEN conjunct1, THEN mp, OF s])
    show "(0 :: real) < 5000" by simp
    show "1 / 2 ^ 500 \<le> (5000 :: real) \<and> (5000 :: real) \<le> 2 ^ 500
        \<and> 1 / 2 ^ 500 \<le> \<bar>4740 - 5000 :: real\<bar> \<and> \<bar>4740 - 5000 :: real\<bar> \<le> 2 ^ 500"
      by simp
  qed
  have "checkCircuitBreaker (session_at 5000) (Fin 4760)
      = js_le (lossPercent (session_at 5000) (Fin 4760)) (Fin (- 5))"
    by (rule br [OF s]) simp
  then have b: "\<not> checkCircuitBreaker (session_at 5000) (Fin 4760)"
    by (simp add: lossPercent_def)
  have "(5000 :: real) \<le> 5000 \<longrightarrow> \<not> checkCircuitBreaker (session_at 5000) (Fin 5000)"
    by (rule checkCircuitBreaker_spec [THEN conjunct2, THEN conjunct2, THEN conjunct2,
          THEN conjunct2, THEN conjunct2, THEN conjunct1, OF s]) simp
  then have c: "\<not> checkCircuitBreaker (session_at 5000) (Fin 5000)" by simp
  have "checkCircuitBreaker (session_at (7543529375845581 / 562949953421312))
        (Fin (3583176453526651 / 281474976710656))
      = js_le (lossPercent (session_at (7543529375845581 / 562949953421312))
                 (Fin (3583176453526651 / 281474976710656))) (Fin (- 5))"
    by (rule br [OF s]) simp
  then have d: "checkCircuitBreaker (session_at (7543529375845581 / 562949953421312))
      (Fin (3583176453526651 / 281474976710656))"
    by (simp add: lossPercent_def)
  have e: "- 5 < (3583176453526651 / 281474976710656 - 7543529375845581 / 562949953421312)
      / (7543529375845581 / 562949953421312) * (100 :: real)"
    by simp
  have "checkCircuitBreaker (session_at 19952) (Fin (2605072899689677 / 137438953472))
      = js_le (lossPercent (session_at 19952) (Fin (2605072899689677 / 137438953472)))
          (Fin (- 5))"
    by (rule br [OF s]) simp
  then have f: "\<not> checkCircuitBreaker (session_at 19952)
      (Fin (2605072899689677 / 137438953472))"
    by (simp add: lossPercent_def)
  from a l1 l2 l3 b c d e f show ?thesis by blast
qed

subsection \<open>The size of a position\<close>

lemma spec_positionValue_eq:
  "spec_positionValue balance a / price = balance * (2 * (a / 100) / 100) / price"
  by (simp add: spec_positionValue_def spec_riskFraction_def)

text \<open>
  The quotient \<open>positionValue / price\<close> as the code computes it, in five operations, each
  within \<open>2^-52\<close> of its exact result.
\<close>

lemma quantity_near:
  assumes a: "50 \<le> a" "a \<le> 100"
    and b: "1 / 2 ^ 500 \<le> balance" "balance \<le> 2 ^ 500"
    and p: "1 / 2 ^ 500 \<le> price" "price \<le> 2 ^ 500"
  shows "\<exists>Q. js_div (js_mul (Fin balance)
                  (js_div (js_mul (Fin 2) (js_div (Fin a) (Fin 100))) (Fin 100))) (Fin price)
              = Fin Q
            \<and> near 5 Q (spec_positionValue balance a / price)"
proof -
  have bpos: "0 < balance" using b(1) by (rule less_le_trans [rotated]) simp
  have ppos: "0 < price" using p(1) by (rule less_le_trans [rotated]) simp
  let ?x1 = "a / 100"
  have r1: "1 / 2 \<le> ?x1" "?x1 \<le> 1" using a by simp_all
  have "1 / 2 ^ 1021 \<le> \<bar>?x1\<bar>" "\<bar>?x1\<bar> \<le> 2 ^ 1021"
    using r1 by simp_all
  with near_fl [OF near_refl, of ?x1]
  obtain y1 where f1: "fl (a / 100) = Fin y1" and n1: "near 1 y1 ?x1"
    by auto
  let ?x2 = "2 * (a / 100)"
  have "near 1 (2 * y1) ?x2"
    using near_mul [OF n1, of 2] by (simp add: mult.commute)
  moreover have "1 / 2 ^ 1021 \<le> \<bar>?x2\<bar>" "\<bar>?x2\<bar> \<le> 2 ^ 1021"
    using r1 by simp_all
  ultimately obtain y2 where f2: "fl (2 * y1) = Fin y2" and n2: "near 2 y2 ?x2"
    using near_fl [of 1 "2 * y1" ?x2] by (auto simp: numeral_2_eq_2)
  let ?x3 = "2 * (a / 100) / 100"
  have r3: "1 / 100 \<le> ?x3" "?x3 \<le> 1 / 50" using a by simp_all
  have "1 / 2 ^ 1021 \<le> \<bar>?x3\<bar>" "\<bar>?x3\<bar> \<le> 2 ^ 1021"
    using r3 by simp_all
  with near_fl [OF near_div [OF n2, of 100]]
  obtain y3 where f3: "fl (y2 / 100) = Fin y3" and n3: "near 3 y3 ?x3"
    by (auto simp: numeral_3_eq_3)
  let ?x4 = "balance * (2 * (a / 100) / 100)"
  have x3pos: "0 < ?x3" using r3(1) by simp
  have l4: "1 / 2 ^ 500 * (1 / 100) \<le> ?x4"
    using b(1) r3(1) by (intro mult_mono) simp_all
  have h4: "?x4 \<le> 2 ^ 500 * (1 / 50)"
    using b(2) r3(2) bpos x3pos by (intro mult_mono) simp_all
  have x4pos: "0 < ?x4" using bpos x3pos by simp
  have "1 / 2 ^ 1021 \<le> 1 / 2 ^ 500 * (1 / 100 :: real)" by simp
  with l4 have "1 / 2 ^ 1021 \<le> ?x4" by (rule order_trans [rotated])
  then have l4': "1 / 2 ^ 1021 \<le> \<bar>?x4\<bar>" unfolding abs_of_pos [OF x4pos] .
  have "2 ^ 500 * (1 / 50) \<le> (2 ^ 1021 :: real)" by simp
  with h4 have "?x4 \<le> 2 ^ 1021" by (rule order_trans)
  then have h4': "\<bar>?x4\<bar> \<le> 2 ^ 1021" unfolding abs_of_pos [OF x4pos] .
  have "near 3 (balance * y3) ?x4"
    using near_mul [OF n3, of balance] by (simp add: mult.commute)
  from near_fl [OF this _ l4' h4']
  obtain y4 where f4: "fl (balance * y3) = Fin y4" and n4: "near 4 y4 ?x4"
    by auto
  let ?x5 = "balance * (2 * (a / 100) / 100) / price"
  have x5pos: "0 < ?x5" using x4pos ppos by simp
  have "1 / 2 ^ 500 * (1 / 100) / 2 ^ 500 \<le> ?x5"
    using l4 p(2) ppos by (intro frac_le) simp_all
  moreover have "1 / 2 ^ 1021 \<le> 1 / 2 ^ 500 * (1 / 100) / (2 ^ 500 :: real)" by simp
  ultimately have "1 / 2 ^ 1021 \<le> ?x5" by (rule order_trans [rotated])
  then have l5: "1 / 2 ^ 1021 \<le> \<bar>?x5\<bar>" unfolding abs_of_pos [OF x5pos] .
  have "?x5 \<le> 2 ^ 500 * (1 / 50) / (1 / 2 ^ 500)"
    using h4 p(1) x4pos by (intro frac_le) simp_all
  moreover have "2 ^ 500 * (1 / 50) / (1 / 2 ^ 500) \<le> (2 ^ 1021 :: real)" by simp
  ultimately have "?x5 \<le> 2 ^ 1021" by (rule order_trans)
  then have h5: "\<bar>?x5\<bar> \<le> 2 ^ 1021" unfolding abs_of_pos [OF x5pos] .
  from near_fl [OF near_div [OF n4, of price] _ l5 h5]
  obtain Q where f5: "fl (y4 / price) = Fin Q" and n5: "near 5 Q ?x5"
    by auto
  have "js_div (js_mul (Fin balance)
      (js_div (js_mul (Fin 2) (js_div (Fin a) (Fin 100))) (Fin 100))) (Fin price) = Fin Q"
    using ppos by (simp add: f1 f2 f3 f4 f5)
  with n5 show ?thesis
    by (auto simp: spec_positionValue_eq)
qed

text \<open>
  Claim C7, as the code has it. For every balance, price and finite aggressiveness \<open>a\<close>,
  the code computes \<open>balance * (2 * (a / 100) / 100) / price\<close> in binary64 arithmetic,
  each of the five operations rounding its result; \<open>calculatePositionSize\<close> (equities)
  returns the floor of this number, and 1 when the floor is not above 0;
  \<open>calculateCryptoPositionSize\<close> returns this number, and the binary64 number \<open>0.001\<close> when
  it is smaller. For \<open>a\<close> from 50 to 100 and a balance and a price between \<open>2^-500\<close> and
  \<open>2^500\<close>, the computed number \<open>Q\<close> is finite and within \<open>5 * 2^-52\<close> of
  \<open>positionValue / price\<close>, relative to it, where \<open>riskFraction = 0.02 * (a / 100)\<close> and
  \<open>positionValue = balance * riskFraction\<close>: the equity quantity is \<open>max 1 (floor Q)\<close>, the
  crypto quantity \<open>max Q 0.001\<close>. The witness is the case balance 5000, price 100,
  aggressiveness 70: the raw quantity is 0 and the result is 1.
\<close>

theorem calculatePositionSize_spec:
  assumes "agressividade (config rm) = Fin a"
  shows "calculatePositionSize rm (Fin balance) (Fin price)
           = (if js_gt (js_floor (js_div (js_mul (Fin balance)
                   (js_div (js_mul (Fin 2) (js_div (Fin a) (Fin 100))) (Fin 100))) (Fin price)))
                 (Fin 0)
              then js_floor (js_div (js_mul (Fin balance)
                   (js_div (js_mul (Fin 2) (js_div (Fin a) (Fin 100))) (Fin 100))) (Fin price))
              else Fin 1)
       \<and> calculateCryptoPositionSize rm (Fin balance) (Fin price)
           = js_max (js_div (js_mul (Fin balance)
                   (js_div (js_mul (Fin 2) (js_div (Fin a) (Fin 100))) (Fin 100))) (Fin price))
               (Fin (1152921504606847 / 1152921504606846976))
       \<and> (50 \<le> a \<and> a \<le> 100 \<and> 1 / 2 ^ 500 \<le> balance \<and> balance \<le> 2 ^ 500
            \<and> 1 / 2 ^ 500 \<le> price \<and> price \<le> 2 ^ 500
          \<longrightarrow> (\<exists>Q. \<bar>Q - spec_positionValue balance a / price\<bar>
                      \<le> 5 / 2 ^ 52 * (spec_positionValue balance a / price)
                   \<and> calculatePositionSize rm (Fin balance) (Fin price)
                       = Fin (max 1 (of_int \<lfloor>Q\<rfloor>))
                   \<and> calculateCryptoPositionSize rm (Fin balance) (Fin price)
                       = Fin (max Q (1152921504606847 / 1152921504606846976))))"
proof -
  let ?q = "js_div (js_mul (Fin balance)
      (js_div (js_mul (Fin 2) (js_div (Fin a) (Fin 100))) (Fin 100))) (Fin price)"
  have e: "calculatePositionSize rm (Fin balance) (Fin price)
      = (if js_gt (js_floor ?q) (Fin 0) then js_floor ?q else Fin 1)"
    by (simp only: calculatePositionSize_def Let_def assms)
  have c: "calculateCryptoPositionSize rm (Fin balance) (Fin price)
      = js_max ?q (Fin (1152921504606847 / 1152921504606846976))"
    by (simp only: calculateCryptoPositionSize_def Let_def assms fl_thousandth)
  have r: "\<exists>Q. \<bar>Q - spec_positionValue balance a / price\<bar>
                \<le> 5 / 2 ^ 52 * (spec_positionValue balance a / price)
             \<and> calculatePositionSize rm (Fin balance) (Fin price)
                 = Fin (max 1 (of_int \<lfloor>Q\<rfloor>))
             \<and> calculateCryptoPositionSize rm (Fin balance) (Fin price)
                 = Fin (max Q (1152921504606847 / 1152921504606846976))"
    if h: "50 \<le> a \<and> a \<le> 100 \<and> 1 / 2 ^ 500 \<le> balance \<and> balance \<le> 2 ^ 500
            \<and> 1 / 2 ^ 500 \<le> price \<and> price \<le> 2 ^ 500"
  proof -
    from h quantity_near [of a balance price]
    obtain Q where q: "?q = Fin Q" and n: "near 5 Q (spec_positionValue balance a / price)"
      by blast
    have "0 < balance" using h by (intro less_le_trans [of 0 "1 / 2 ^ 500" balance]) simp_all
    moreover have "0 < price"
      using h by (intro less_le_trans [of 0 "1 / 2 ^ 500" price]) simp_all
    moreover have "0 < a" using h by simp
    ultimately have pos: "0 < spec_positionValue balance a / price"
      by (simp add: spec_positionValue_def spec_riskFraction_def)
    from n pos have d: "\<bar>Q - spec_positionValue balance a / price\<bar>
        \<le> 5 / 2 ^ 52 * (spec_positionValue balance a / price)"
      by (simp add: near_def)
    have fl: "(0 < (of_int \<lfloor>Q\<rfloor> :: real)) = (1 \<le> (of_int \<lfloor>Q\<rfloor> :: real))"
      by (metis of_int_0_less_iff of_int_1_le_iff zero_less_imp_eq_int int_one_le_iff_zero_less)
    have "calculatePositionSize rm (Fin balance) (Fin price) = Fin (max 1 (of_int \<lfloor>Q\<rfloor>))"
      unfolding e q using fl by (simp add: max_def)
    moreover have "calculateCryptoPositionSize rm (Fin balance) (Fin price)
        = Fin (max Q (1152921504606847 / 1152921504606846976))"
      unfolding c q by simp
    ultimately show ?thesis using d by blast
  qed
  from e c r show ?thesis by blast
qed

theorem calculatePositionSize_spec_witness:
  "calculatePositionSize (RiskManager_new env_unset ''Mon Nov 02 2026'')
        (Fin 5000) (Fin 100) = Fin 1
   \<and> spec_riskFraction 70 = 14 / 1000
   \<and> spec_positionValue 5000 70 = 70
   \<and> \<lfloor>spec_positionValue 5000 70 / 100\<rfloor> = 0"
proof -
  let ?rm = "RiskManager_new env_unset ''Mon Nov 02 2026''"
  have v: "spec_positionValue 5000 70 / 100 = 7 / 10"
    by (simp add: spec_positionValue_def spec_riskFraction_def)
  have "\<exists>Q. \<bar>Q - spec_positionValue 5000 70 / 100\<bar>
              \<le> 5 / 2 ^ 52 * (spec_positionValue 5000 70 / 100)
           \<and> calculatePositionSize ?rm (Fin 5000) (Fin 100) = Fin (max 1 (of_int \<lfloor>Q\<rfloor>))
           \<and> calculateCryptoPositionSize ?rm (Fin 5000) (Fin 100)
               = Fin (max Q (1152921504606847 / 1152921504606846976))"
  proof (rule calculatePositionSize_spec [where rm = ?rm and a = 70 and balance = 5000
        and price = 100, THEN conjunct2, THEN conjunct2, THEN mp])
    show "agressividade (config ?rm) = Fin 70" by simp
    show "50 \<le> (70 :: real) \<and> (70 :: real) \<le> 100 \<and> 1 / 2 ^ 500 \<le> (5000 :: real)
        \<and> (5000 :: real) \<le> 2 ^ 500 \<and> 1 / 2 ^ 500 \<le> (100 :: real) \<and> (100 :: real) \<le> 2 ^ 500"
      by simp
  qed
  then obtain Q :: real where d: "\<bar>Q - 7 / 10\<bar> \<le> 5 / 2 ^ 52 * (7 / 10)"
    and r: "calculatePositionSize ?rm (Fin 5000) (Fin 100) = Fin (max 1 (of_int \<lfloor>Q\<rfloor>))"
    unfolding v by blast
  have "5 / 2 ^ 52 * (7 / 10) \<le> (1 / 10 :: real)" by simp
  with d have "0 \<le> Q" "Q < 1" by linarith+
  then have "\<lfloor>Q\<rfloor> = 0" by linarith
  with r have a: "calculatePositionSize ?rm (Fin 5000) (Fin 100) = Fin 1" by simp
  have b: "spec_riskFraction 70 = 14 / 1000" "spec_positionValue 5000 70 = 70"
    "\<lfloor>spec_positionValue 5000 70 / 100\<rfloor> = 0"
    by (simp_all add: spec_positionValue_def spec_riskFraction_def)
  from a b show ?thesis by blast
qed

text \<open>
  The claim has the floor of the quotient of its own formulas. At balance 5000, price 1
  and aggressiveness 94 the code computes the position value \<open>93.99999999999999\<close> and the
  quantity 93, where the formulas of the claim give 94, both exactly and in binary64
  arithmetic in the order in which the claim writes them. At balance 5000, price 10 and
  aggressiveness 70 the position value is computed as \<open>69.99999999999999\<close>, the quotient as
  \<open>6.999999999999998\<close>, and the quantity is 6, where \<open>floor (70 / 10) = 7\<close>. At balance
  1000 and price 1400 the crypto quantity is below the \<open>0.01\<close> that \<open>14 / 1400\<close> is.
\<close>

theorem calculatePositionSize_floors_rounded_quotient:
  "calculatePositionSize
       (RiskManager_new (env_unset \<lparr> agressividade := Fin 94 \<rparr>) ''Mon Nov 02 2026'')
       (Fin 5000) (Fin 1) = Fin 93
   \<and> max 1 (of_int \<lfloor>spec_positionValue 5000 94 / 1\<rfloor>) = (94 :: real)
   \<and> spec_quantity_js 5000 1 94 = Fin 94
   \<and> calculatePositionSize (RiskManager_new env_unset ''Mon Nov 02 2026'') (Fin 5000) (Fin 10)
       = Fin 6
   \<and> max 1 (of_int \<lfloor>spec_positionValue 5000 70 / 10\<rfloor>) = (7 :: real)
   \<and> js_mul (Fin 5000) (js_div (js_mul (Fin 2) (js_div (Fin 70) (Fin 100))) (Fin 100))
       = Fin (4925812092436479 / 70368744177664)
   \<and> 4925812092436479 / 70368744177664 < (70 :: real)
   \<and> calculateCryptoPositionSize (RiskManager_new env_unset ''Mon Nov 02 2026'')
        (Fin 1000) (Fin 1400) = Fin (2882303761517117 / 288230376151711744)
   \<and> 2882303761517117 / 288230376151711744 < spec_positionValue 1000 70 / 1400
   \<and> spec_positionValue 1000 70 / 1400 = 1 / 100"
proof -
  have a: "agressividade (config (RiskManager_new (env_unset \<lparr> agressividade := Fin 94 \<rparr>)
      ''Mon Nov 02 2026'')) = Fin 94"
    by (simp add: RiskManager_new_def js_or_def)
  have "calculatePositionSize
      (RiskManager_new (env_unset \<lparr> agressividade := Fin 94 \<rparr>) ''Mon Nov 02 2026'')
      (Fin 5000) (Fin 1) = Fin 93"
    by (simp add: calculatePositionSize_def Let_def a)
  moreover have "spec_quantity_js 5000 1 94 = Fin 94"
    by (simp add: spec_quantity_js_def)
  ultimately show ?thesis
    by (simp add: calculatePositionSize_def calculateCryptoPositionSize_def Let_def
        spec_positionValue_def spec_riskFraction_def)
qed

subsection \<open>The daily session\<close>

text \<open>
  Claim C8. \<open>resetDailyStats\<close> is idempotent within a calendar day: when the session's
  date is today, a call with any balance returns the risk manager unchanged; when the date
  differs, the session is replaced by a fresh one dated today. So a second call on the
  same date, with whatever balance, leaves the session as the first call left it.
\<close>

theorem resetDailyStats_idempotent:
  "(startDate (dailyStats rm) = today \<longrightarrow> resetDailyStats rm today b = rm)
   \<and> (startDate (dailyStats rm) \<noteq> today \<longrightarrow>
        resetDailyStats rm today b
          = rm \<lparr> dailyStats := \<lparr> startBalance = b, currentPnL = Fin 0, tradesCount = 0,
                                 startDate = today \<rparr> \<rparr>)
   \<and> resetDailyStats (resetDailyStats rm today b1) today b2 = resetDailyStats rm today b1"
  by (simp add: resetDailyStats_def)

theorem resetDailyStats_idempotent_witness:
  "dailyStats (resetDailyStats (RiskManager_new env_unset ''Sun Nov 01 2026'')
       ''Mon Nov 02 2026'' (Fin 5000))
     = \<lparr> startBalance = Fin 5000, currentPnL = Fin 0, tradesCount = 0,
         startDate = ''Mon Nov 02 2026'' \<rparr>
   \<and> resetDailyStats
       (resetDailyStats (RiskManager_new env_unset ''Sun Nov 01 2026'')
          ''Mon Nov 02 2026'' (Fin 5000))
       ''Mon Nov 02 2026'' (Fin 6000)
     = resetDailyStats (RiskManager_new env_unset ''Sun Nov 01 2026'')
         ''Mon Nov 02 2026'' (Fin 5000)
   \<and> resetDailyStats (RiskManager_new env_unset ''Sun Nov 01 2026'')
       ''Sun Nov 01 2026'' (Fin 5000)
     = RiskManager_new env_unset ''Sun Nov 01 2026''"
proof -
  let ?rm = "RiskManager_new env_unset ''Sun Nov 01 2026''"
  have d: "startDate (dailyStats ?rm) = ''Sun Nov 01 2026''"
    by (rule startDate_RiskManager_new)
  have n: "startDate (dailyStats ?rm) \<noteq> ''Mon Nov 02 2026''"
    by (simp add: d)
  note mon = resetDailyStats_idempotent [of ?rm "''Mon Nov 02 2026''" "Fin 5000"
      "Fin 5000" "Fin 6000"]
  note sun = resetDailyStats_idempotent [of ?rm "''Sun Nov 01 2026''" "Fin 5000"
      "Fin 5000" "Fin 6000"]
  from mon n have "resetDailyStats ?rm ''Mon Nov 02 2026'' (Fin 5000)
      = ?rm \<lparr> dailyStats := \<lparr> startBalance = Fin 5000, currentPnL = Fin 0,
          tradesCount = 0, startDate = ''Mon Nov 02 2026'' \<rparr> \<rparr>"
    by blast
  then have a: "dailyStats (resetDailyStats ?rm ''Mon Nov 02 2026'' (Fin 5000))
      = \<lparr> startBalance = Fin 5000, currentPnL = Fin 0, tradesCount = 0,
          startDate = ''Mon Nov 02 2026'' \<rparr>"
    by simp
  from mon have b: "resetDailyStats (resetDailyStats ?rm ''Mon Nov 02 2026'' (Fin 5000))
      ''Mon Nov 02 2026'' (Fin 6000) = resetDailyStats ?rm ''Mon Nov 02 2026'' (Fin 5000)"
    by blast
  from sun d have c: "resetDailyStats ?rm ''Sun Nov 01 2026'' (Fin 5000) = ?rm"
    by blast
  from a b c show ?thesis by blast
qed

lemma js_div_zero_not_Fin: "js_mul (js_div x (Fin 0)) (Fin 100) \<noteq> Fin y"
  by (cases x) simp_all

lemma lossPercent_zero:
  "startBalance (dailyStats rm) = Fin 0 \<Longrightarrow>
   js_le (lossPercent rm bal) (Fin (- 5)) = js_lt (js_sub bal (Fin 0)) (Fin 0)"
  by (cases "js_sub bal (Fin 0)") (simp_all add: lossPercent_def js_le_def)

text \<open>
  Claim C10. The constructor opens the daily session with start balance 0 and the
  construction day as its date. So \<open>resetDailyStats\<close> on that day returns the risk manager
  unchanged, and after any calls of \<open>resetDailyStats\<close> and \<open>updateDailyPnL\<close> made on that
  day the start balance is still 0 and a further \<open>resetDailyStats\<close> changes nothing; only a
  reset on another day replaces the session. On that day \<open>checkCircuitBreaker\<close> and the
  \<open>dailyPnLPercent\<close> of \<open>getRiskStats\<close> divide by 0: the loss percentage is
  \<open>(balance - 0) / 0 * 100\<close>, which for a binary64 balance is \<open>balance / 0 * 100\<close>, the
  breaker answers whether the balance is negative, and \<open>dailyPnLPercent\<close> is
  \<open>currentPnL / 0 * 100\<close>, never a finite number.
\<close>

theorem constructor_startBalance_zero:
  "startBalance (dailyStats (RiskManager_new c day)) = Fin 0
   \<and> startDate (dailyStats (RiskManager_new c day)) = day
   \<and> resetDailyStats (RiskManager_new c day) day b = RiskManager_new c day
   \<and> startBalance (dailyStats (session_day day (RiskManager_new c day) calls)) = Fin 0
   \<and> resetDailyStats (session_day day (RiskManager_new c day) calls) day b
        = session_day day (RiskManager_new c day) calls
   \<and> lossPercent (session_day day (RiskManager_new c day) calls) bal
        = js_mul (js_div (js_sub bal (Fin 0)) (Fin 0)) (Fin 100)
   \<and> checkCircuitBreaker (session_day day (RiskManager_new c day) calls) bal
        = js_lt (js_sub bal (Fin 0)) (Fin 0)
   \<and> (is_double x \<longrightarrow>
        lossPercent (session_day day (RiskManager_new c day) calls) (Fin x)
          = js_mul (js_div (Fin x) (Fin 0)) (Fin 100)
        \<and> checkCircuitBreaker (session_day day (RiskManager_new c day) calls) (Fin x)
            = (x < 0))
   \<and> dailyPnLPercent (getRiskStats (session_day day (RiskManager_new c day) calls))
        = js_mul (js_div (currentPnL (dailyStats
            (session_day day (RiskManager_new c day) calls))) (Fin 0)) (Fin 100)
   \<and> dailyPnLPercent (getRiskStats (session_day day (RiskManager_new c day) calls)) \<noteq> Fin y
   \<and> (day' \<noteq> day \<longrightarrow>
        startBalance (dailyStats
          (resetDailyStats (session_day day (RiskManager_new c day) calls) day' b)) = b)"
proof -
  let ?rm = "RiskManager_new c day"
  let ?rm' = "session_day day ?rm calls"
  have d0: "startDate (dailyStats ?rm) = day" and b0: "startBalance (dailyStats ?rm) = Fin 0"
    by (simp_all add: RiskManager_new_def)
  from session_day_keeps [OF d0, of calls] b0
  have d: "startDate (dailyStats ?rm') = day" and b: "startBalance (dailyStats ?rm') = Fin 0"
    by simp_all
  have r: "resetDailyStats ?rm day b = ?rm"
    using d0 by (simp add: resetDailyStats_def)
  have l: "lossPercent ?rm' v = js_mul (js_div (js_sub v (Fin 0)) (Fin 0)) (Fin 100)" for v
    by (simp only: lossPercent_def b)
  have cb: "checkCircuitBreaker ?rm' v = js_lt (js_sub v (Fin 0)) (Fin 0)" for v
    using lossPercent_zero [OF b] by (simp add: checkCircuitBreaker_def)
  have dbl: "is_double x \<longrightarrow>
      lossPercent ?rm' (Fin x) = js_mul (js_div (Fin x) (Fin 0)) (Fin 100)
      \<and> checkCircuitBreaker ?rm' (Fin x) = (x < 0)"
    unfolding l cb by (simp add: is_double_def)
  have p: "dailyPnLPercent (getRiskStats ?rm')
      = js_mul (js_div (currentPnL (dailyStats ?rm')) (Fin 0)) (Fin 100)"
    by (simp add: getRiskStats_def b)
  have p': "dailyPnLPercent (getRiskStats ?rm') \<noteq> Fin y"
    unfolding p by (rule js_div_zero_not_Fin)
  have n: "day' \<noteq> day \<longrightarrow> startBalance (dailyStats (resetDailyStats ?rm' day' b)) = b"
    using d by (simp add: resetDailyStats_def)
  have r': "resetDailyStats ?rm' day b = ?rm'"
    using d by (simp add: resetDailyStats_def)
  from d0 b0 r b r' l [of bal] cb [of bal] dbl p p' n show ?thesis by blast
qed

theorem constructor_startBalance_zero_witness:
  "checkCircuitBreaker
     (session_day ''Mon Nov 02 2026'' (RiskManager_new env_unset ''Mon Nov 02 2026'')
        [ResetDailyStats (Fin 5000), UpdateDailyPnL (Fin 4000)]) (Fin 4000) = False
   \<and> dailyPnLPercent (getRiskStats
        (session_day ''Mon Nov 02 2026'' (RiskManager_new env_unset ''Mon Nov 02 2026'')
           [ResetDailyStats (Fin 5000), UpdateDailyPnL (Fin 4000)])) = PosInf
   \<and> startBalance (dailyStats
        (resetDailyStats
           (session_day ''Mon Nov 02 2026'' (RiskManager_new env_unset ''Mon Nov 02 2026'')
              [ResetDailyStats (Fin 5000), UpdateDailyPnL (Fin 4000)])
           ''Tue Nov 03 2026'' (Fin 4000))) = Fin 4000"
proof -
  let ?calls = "[ResetDailyStats (Fin 5000), UpdateDailyPnL (Fin 4000)]"
  let ?rm = "session_day ''Mon Nov 02 2026''
      (RiskManager_new env_unset ''Mon Nov 02 2026'') ?calls"
  note t = constructor_startBalance_zero [where c = env_unset and day = "''Mon Nov 02 2026''"
      and b = "Fin 4000" and calls = ?calls and x = 4000 and y = 0 and bal = "Fin 4000"
      and day' = "''Tue Nov 03 2026''"]
  have dbl: "is_double 4000" by (simp add: is_double_def)
  have cur: "currentPnL (dailyStats ?rm) = Fin 4000"
    by (simp add: session_day_def resetDailyStats_def updateDailyPnL_def
        startDate_RiskManager_new RiskManager_new_def)
  from t dbl have a: "checkCircuitBreaker ?rm (Fin 4000) = ((4000 :: real) < 0)" by blast
  from t have "dailyPnLPercent (getRiskStats ?rm)
      = js_mul (js_div (currentPnL (dailyStats ?rm)) (Fin 0)) (Fin 100)"
    by blast
  then have b: "dailyPnLPercent (getRiskStats ?rm) = PosInf"
    by (simp add: cur)
  from t have c: "startBalance (dailyStats (resetDailyStats ?rm ''Tue Nov 03 2026''
      (Fin 4000))) = Fin 4000"
    by blast
  from a b c show ?thesis by simp
qed

section \<open>Properties of the signal engine\<close>

lemma deltas_replicate:
  "map (\<lambda>(a, b). b - a) (zip (c # replicate n c) (replicate n c)) = replicate n (0::real)"
  by (induction n) simp_all

lemma deltas_const:
  assumes "\<forall>x \<in> set xs. x = c"
  shows "deltas xs = replicate (length xs - 1) 0"
proof -
  have xs: "xs = replicate (length xs) c"
    using assms by (simp add: replicate_length_same)
  have "map (\<lambda>(a, b). b - a) (zip (replicate n c) (tl (replicate n c))) = replicate (n - 1) 0" for n
    by (cases n) (simp_all add: deltas_replicate)
  from this [of "length xs"] xs show ?thesis
    unfolding deltas_def by simp
qed

lemma wilder_zero: "wilder p 0 0 = 0"
  by (simp add: wilder_def)

lemma smooth_zero: "smooth p 0 0 (replicate k 0) = replicate (Suc k) 100"
  by (induction k) (simp_all add: indicator_def gain_def loss_def wilder_zero)

lemma RSI_calculate_const:
  assumes "p + 1 \<le> length xs" and "\<forall>x \<in> set xs. x = c"
  shows "RSI_calculate xs p = replicate (length xs - p) 100"
proof -
  have ds: "deltas xs = replicate (length xs - 1) 0"
    by (rule deltas_const [OF assms(2)])
  have k: "Suc (length xs - Suc p) = length xs - p"
    using assms(1) by simp
  have "RSI_calculate xs p = smooth p 0 0 (replicate (length xs - Suc p) 0)"
    using assms(1)
    by (simp add: RSI_calculate_def ds Let_def sum_list_replicate gain_def loss_def)
  then show ?thesis
    by (simp only: smooth_zero k)
qed

lemma default_strategy_simps [simp]:
  "period default_strategy = 14" "oversold default_strategy = Fin 30"
  "overbought default_strategy = Fin 70"
  by (simp_all add: default_strategy_def RSIStrategy_new_def js_or_def)

lemma flat_series_simps [simp]:
  "length (flat_series n c) = n" "b \<in> set (flat_series n c) \<Longrightarrow> close b = c"
  by (auto simp: flat_series_def)

lemma calculateRSI_const:
  assumes "period st + 1 \<le> length historicalData"
    and "\<forall>b \<in> set historicalData. close b = c"
  shows "calculateRSI st historicalData = Some (Fin 100)"
proof -
  let ?xs = "map close historicalData"
  have "RSI_calculate ?xs (period st) = replicate (length ?xs - period st) 100"
    using assms by (intro RSI_calculate_const [where c = c]) auto
  then show ?thesis
    using assms(1) by (simp add: calculateRSI_def Let_def)
qed

lemma generateSignal_buy:
  assumes "oversold st = Fin lo" and "v < lo"
  shows "generateSignal st (Some (Fin v))
     = \<lparr> sig_type = BUY,
         sig_strength =
           js_min (js_mul (js_div (js_sub (Fin lo) (Fin v)) (Fin lo)) (Fin 100)) (Fin 100),
         sig_rsi = Some (toFixed2 (Fin v)) \<rparr>"
  using assms by (simp add: generateSignal_def Let_def)

lemma generateSignal_sell:
  assumes "oversold st = Fin lo" and "overbought st = Fin hi"
    and "\<not> v < lo" and "hi < v"
  shows "generateSignal st (Some (Fin v))
     = \<lparr> sig_type = SELL,
         sig_strength =
           js_min (js_mul (js_div (js_sub (Fin v) (Fin hi)) (js_sub (Fin 100) (Fin hi)))
                     (Fin 100)) (Fin 100),
         sig_rsi = Some (toFixed2 (Fin v)) \<rparr>"
  using assms by (simp add: generateSignal_def Let_def)

lemma generateSignal_hold:
  assumes "oversold st = Fin lo" and "overbought st = Fin hi"
    and "\<not> v < lo" and "\<not> hi < v"
  shows "generateSignal st (Some (Fin v))
     = \<lparr> sig_type = HOLD, sig_strength = Fin 0, sig_rsi = Some (toFixed2 (Fin v)) \<rparr>"
  using assms by (simp add: generateSignal_def Let_def)

text \<open>
  For an indicator value from 0 to 100 the raw strength is not negative, so the lower
  bound of the clamp changes nothing.
\<close>

lemma buy_strength_not_neg:
  assumes "0 \<le> v" and "v < lo"
  shows "\<not> js_lt (js_mul (js_div (js_sub (Fin lo) (Fin v)) (Fin lo)) (Fin 100)) (Fin 0)"
proof -
  have "\<not> js_lt (fl (lo - v)) (Fin 0)"
    using assms by (intro fl_not_neg) simp
  moreover have "\<not> js_lt (Fin lo) (Fin 0)" using assms by simp
  ultimately have "\<not> js_lt (js_div (fl (lo - v)) (Fin lo)) (Fin 0)"
    by (rule js_div_not_neg)
  moreover have "\<not> js_lt (Fin 100) (Fin 0)" by simp
  ultimately have "\<not> js_lt (js_mul (js_div (fl (lo - v)) (Fin lo)) (Fin 100)) (Fin 0)"
    by (rule js_mul_not_neg)
  then show ?thesis by simp
qed

lemma sell_strength_not_neg:
  assumes "hi < v" and "v \<le> 100"
  shows "\<not> js_lt (js_mul (js_div (js_sub (Fin v) (Fin hi)) (js_sub (Fin 100) (Fin hi)))
                     (Fin 100)) (Fin 0)"
proof -
  have "\<not> js_lt (fl (v - hi)) (Fin 0)"
    using assms by (intro fl_not_neg) simp
  moreover have "\<not> js_lt (fl (100 - hi)) (Fin 0)"
    using assms by (intro fl_not_neg) simp
  ultimately have "\<not> js_lt (js_div (fl (v - hi)) (fl (100 - hi))) (Fin 0)"
    by (rule js_div_not_neg)
  moreover have "\<not> js_lt (Fin 100) (Fin 0)" by simp
  ultimately have
    "\<not> js_lt (js_mul (js_div (fl (v - hi)) (fl (100 - hi))) (Fin 100)) (Fin 0)"
    by (rule js_mul_not_neg)
  then show ?thesis by simp
qed

text \<open>
  Claim C5. For every indicator value \<open>v\<close> from 0 to 100 and finite thresholds \<open>lo\<close>
  (oversold) and \<open>hi\<close> (overbought), in binary64 arithmetic: for \<open>v < lo\<close> the signal is BUY
  with strength \<open>clamp(((lo - v) / lo) * 100, 0, 100)\<close>; for \<open>v > hi\<close>, the first case not
  holding, it is SELL with strength \<open>clamp(((v - hi) / (100 - hi)) * 100, 0, 100)\<close>;
  otherwise it is HOLD with strength 0. A missing indicator gives HOLD with strength 0.
  The witness has the three examples of the specification: \<open>classify(20, 30, 70)\<close> is BUY
  with the binary64 strength \<open>33.33333333333333\<close>, within a hundredth of 33.33;
  \<open>classify(85, 30, 70)\<close> is SELL with strength 50; \<open>classify(50, 30, 70)\<close> is HOLD with
  strength 0.
\<close>

theorem generateSignal_spec:
  assumes "oversold st = Fin lo" and "overbought st = Fin hi" and "0 \<le> v" and "v \<le> 100"
  shows "(v < lo \<longrightarrow>
            sig_type (generateSignal st (Some (Fin v))) = BUY
          \<and> sig_strength (generateSignal st (Some (Fin v)))
              = spec_clamp (js_mul (js_div (js_sub (Fin lo) (Fin v)) (Fin lo)) (Fin 100))
                  (Fin 0) (Fin 100))
       \<and> (\<not> v < lo \<and> hi < v \<longrightarrow>
            sig_type (generateSignal st (Some (Fin v))) = SELL
          \<and> sig_strength (generateSignal st (Some (Fin v)))
              = spec_clamp (js_mul (js_div (js_sub (Fin v) (Fin hi))
                                      (js_sub (Fin 100) (Fin hi))) (Fin 100))
                  (Fin 0) (Fin 100))
       \<and> (\<not> v < lo \<and> \<not> hi < v \<longrightarrow>
            sig_type (generateSignal st (Some (Fin v))) = HOLD
          \<and> sig_strength (generateSignal st (Some (Fin v))) = Fin 0)
       \<and> sig_type (generateSignal st None) = HOLD
       \<and> sig_strength (generateSignal st None) = Fin 0"
proof -
  have buy: "v < lo \<longrightarrow>
      sig_type (generateSignal st (Some (Fin v))) = BUY
      \<and> sig_strength (generateSignal st (Some (Fin v)))
          = spec_clamp (js_mul (js_div (js_sub (Fin lo) (Fin v)) (Fin lo)) (Fin 100))
              (Fin 0) (Fin 100)"
  proof
    assume lt: "v < lo"
    note g = generateSignal_buy [OF assms(1) lt]
    note c = clamp_not_neg [OF buy_strength_not_neg [OF assms(3) lt]]
    show "sig_type (generateSignal st (Some (Fin v))) = BUY
      \<and> sig_strength (generateSignal st (Some (Fin v)))
          = spec_clamp (js_mul (js_div (js_sub (Fin lo) (Fin v)) (Fin lo)) (Fin 100))
              (Fin 0) (Fin 100)"
      unfolding g c by simp
  qed
  have sell: "\<not> v < lo \<and> hi < v \<longrightarrow>
      sig_type (generateSignal st (Some (Fin v))) = SELL
      \<and> sig_strength (generateSignal st (Some (Fin v)))
          = spec_clamp (js_mul (js_div (js_sub (Fin v) (Fin hi))
                                  (js_sub (Fin 100) (Fin hi))) (Fin 100))
              (Fin 0) (Fin 100)"
  proof
    assume h: "\<not> v < lo \<and> hi < v"
    then have n: "\<not> v < lo" and gt: "hi < v" by simp_all
    note g = generateSignal_sell [OF assms(1,2) n gt]
    note c = clamp_not_neg [OF sell_strength_not_neg [OF gt assms(4)]]
    show "sig_type (generateSignal st (Some (Fin v))) = SELL
      \<and> sig_strength (generateSignal st (Some (Fin v)))
          = spec_clamp (js_mul (js_div (js_sub (Fin v) (Fin hi))
                                  (js_sub (Fin 100) (Fin hi))) (Fin 100))
              (Fin 0) (Fin 100)"
      unfolding g c by simp
  qed
  have hold: "\<not> v < lo \<and> \<not> hi < v \<longrightarrow>
      sig_type (generateSignal st (Some (Fin v))) = HOLD
      \<and> sig_strength (generateSignal st (Some (Fin v))) = Fin 0"
    using generateSignal_hold [OF assms(1,2), of v] by simp
  have none: "sig_type (generateSignal st None) = HOLD"
    "sig_strength (generateSignal st None) = Fin 0"
    by (simp_all add: generateSignal_def)
  from buy sell hold none show ?thesis by blast
qed

theorem generateSignal_spec_witness:
  "sig_type (generateSignal default_strategy (Some (Fin 20))) = BUY
   \<and> sig_strength (generateSignal default_strategy (Some (Fin 20)))
       = Fin (2345624805922133 / 70368744177664)
   \<and> \<bar>2345624805922133 / 70368744177664 - 3333 / 100\<bar> < (1 / 100 :: real)
   \<and> sig_type (generateSignal default_strategy (Some (Fin 85))) = SELL
   \<and> sig_strength (generateSignal default_strategy (Some (Fin 85))) = Fin 50
   \<and> sig_type (generateSignal default_strategy (Some (Fin 50))) = HOLD
   \<and> sig_strength (generateSignal default_strategy (Some (Fin 50))) = Fin 0"
proof -
  note t = generateSignal_spec [where st = default_strategy and lo = 30 and hi = 70,
      OF default_strategy_simps(2) default_strategy_simps(3)]
  have "sig_type (generateSignal default_strategy (Some (Fin 20))) = BUY
      \<and> sig_strength (generateSignal default_strategy (Some (Fin 20)))
          = spec_clamp (js_mul (js_div (js_sub (Fin 30) (Fin 20)) (Fin 30)) (Fin 100))
              (Fin 0) (Fin 100)"
  proof (rule t [where v = 20, THEN conjunct1, THEN mp])
    show "(0 :: real) \<le> 20" "(20 :: real) \<le> 100" "(20 :: real) < 30" by simp_all
  qed
  then have a: "sig_type (generateSignal default_strategy (Some (Fin 20))) = BUY
      \<and> sig_strength (generateSignal default_strategy (Some (Fin 20)))
          = Fin (2345624805922133 / 70368744177664)"
    by (simp add: spec_clamp_def)
  have "sig_type (generateSignal default_strategy (Some (Fin 85))) = SELL
      \<and> sig_strength (generateSignal default_strategy (Some (Fin 85)))
          = spec_clamp (js_mul (js_div (js_sub (Fin 85) (Fin 70))
                                  (js_sub (Fin 100) (Fin 70))) (Fin 100))
              (Fin 0) (Fin 100)"
  proof (rule t [where v = 85, THEN conjunct2, THEN conjunct1, THEN mp])
    show "(0 :: real) \<le> 85" "(85 :: real) \<le> 100" "\<not> (85 :: real) < 30 \<and> (70 :: real) < 85"
      by simp_all
  qed
  then have b: "sig_type (generateSignal default_strategy (Some (Fin 85))) = SELL
      \<and> sig_strength (generateSignal default_strategy (Some (Fin 85))) = Fin 50"
    by (simp add: spec_clamp_def)
  have c: "sig_type (generateSignal default_strategy (Some (Fin 50))) = HOLD
      \<and> sig_strength (generateSignal default_strategy (Some (Fin 50))) = Fin 0"
  proof (rule t [where v = 50, THEN conjunct2, THEN conjunct2, THEN conjunct1, THEN mp])
    show "(0 :: real) \<le> 50" "(50 :: real) \<le> 100" "\<not> (50 :: real) < 30 \<and> \<not> (70 :: real) < 50"
      by simp_all
  qed
  have d: "\<bar>2345624805922133 / 70368744177664 - 3333 / 100\<bar> < (1 / 100 :: real)"
    by simp
  from a b c d show ?thesis by blast
qed

text \<open>
  Claim C9, against the indicator as the specification defines it. For a price series of
  at least \<open>period + 1\<close> bars that all close at the same price, every delta is zero, so the
  average loss is zero and the indicator is 100, at the seed and after every later step:
  \<open>calculateRSI\<close> returns 100.
\<close>

theorem calculateRSI_constant_series:
  assumes "0 < period st" and "period st + 1 \<le> length historicalData"
    and "\<forall>b \<in> set historicalData. close b = c"
  shows "calculateRSI st historicalData = Some (Fin 100)"
  using assms(2,3) by (rule calculateRSI_const)

theorem calculateRSI_constant_series_witness:
  "calculateRSI default_strategy (flat_series 20 10) = Some (Fin 100)"
  using calculateRSI_constant_series [of default_strategy "flat_series 20 10" 10]
  by simp

text \<open>
  The claim says 50: fifteen bars closing at 10, under the default period 14, give 100.
\<close>

theorem calculateRSI_constant_not_50:
  "calculateRSI default_strategy (flat_series 15 10) = Some (Fin 100)
   \<and> calculateRSI default_strategy (flat_series 15 10) \<noteq> Some (Fin 50)"
  using calculateRSI_const [of default_strategy "flat_series 15 10" 10]
  by simp

section \<open>Properties of the trading bot\<close>

lemma runScanCycle_idle: "status tb \<noteq> Running \<Longrightarrow> runScanCycle tb w = (tb, [])"
  by (simp add: runScanCycle_def)

lemma step_not_running:
  assumes "status tb \<noteq> Running" and "\<not> is_start ev"
  shows "status (fst (step tb ev)) \<noteq> Running
       \<and> (status tb = Stopped \<longrightarrow> status (fst (step tb ev)) = Stopped)"
  using assms by (cases ev) (simp_all add: runScanCycle_idle pause_def stop_def)

lemma run_not_running:
  assumes "status tb \<noteq> Running" and "\<not> list_ex is_start evs"
  shows "ticks_idle tb evs \<and> status (run tb evs) \<noteq> Running
       \<and> (status tb = Stopped \<longrightarrow> status (run tb evs) = Stopped)"
  using assms
proof (induction evs arbitrary: tb)
  case Nil
  then show ?case by simp
next
  case (Cons ev evs)
  from Cons.prems have ns: "\<not> is_start ev" and rest: "\<not> list_ex is_start evs"
    by simp_all
  from step_not_running [OF Cons.prems(1) ns]
  have s1: "status (fst (step tb ev)) \<noteq> Running"
    and s2: "status tb = Stopped \<longrightarrow> status (fst (step tb ev)) = Stopped"
    by simp_all
  note ih = Cons.IH [OF s1 rest]
  show ?case
  proof (cases ev)
    case (Tick w)
    then have "fst (step tb ev) = tb"
      using Cons.prems(1) by (simp add: runScanCycle_idle)
    with ih Tick Cons.prems(1) show ?thesis
      by (simp add: runScanCycle_idle)
  next
    case PauseCall
    with ih s2 show ?thesis by simp
  next
    case StopCall
    with ih s2 show ?thesis by simp
  next
    case (StartCall w ss cs)
    with ns show ?thesis by simp
  qed
qed

lemma halt_limits:
  assumes "status tb = Running" and "getTotalBalance w = Inr balance"
    and "shouldStopTrading (updateDailyPnL (riskManager tb) balance)"
  shows "status (fst (runScanCycle tb w)) = Stopped"
  using assms by (simp add: runScanCycle_def Let_def stop_def)

lemma halt_breaker:
  assumes "status tb = Running" and "getTotalBalance w = Inr balance"
    and "\<not> shouldStopTrading (updateDailyPnL (riskManager tb) balance)"
    and "checkCircuitBreaker (updateDailyPnL (riskManager tb) balance) balance"
    and "snd (closeAllPositions w) = Inr ()"
  shows "status (fst (runScanCycle tb w)) = Stopped"
  using assms
  by (cases "closeAllPositions w") (simp add: runScanCycle_def Let_def stop_def)

lemma quiet_world_simps [simp]:
  "a_testConnection (alpaca (quiet_world va vk)) = True"
  "k_testConnection (kraken (quiet_world va vk)) = True"
  "getTotalBalance (quiet_world va vk) = Inr (js_add va vk)"
  "getAllPositions (quiet_world va vk) = []"
  "closeAllPositions (quiet_world va vk) = ([CloseAllPositions], Inr ())"
  "w_today (quiet_world va vk) = ''Mon Nov 02 2026''"
  "w_now (quiet_world va vk) = 0"
  by (simp_all add: quiet_world_def quiet_alpaca_def quiet_kraken_def getTotalBalance_def
      getAllPositions_def closeAllPositions_def)

lemma scanAll_nothing [simp]: "scanAll a k st [] [] =
    \<lparr> sr_all = [], sr_buy = [], sr_sell = [],
      sr_stats = \<lparr> st_total = 0, buyCount = 0, sellCount = 0 \<rparr> \<rparr>"
  by (simp add: scanAll_def scanStocks_def scanCryptos_def List.map_filter_simps js_sort_def)

lemma new_bot_simps [simp]:
  "status new_bot = Stopped"
  "riskManager new_bot = RiskManager_new env_unset ''Sun Nov 01 2026''"
  by (simp_all add: new_bot_def TradingBot_new_def)

lemma running_bot_eq:
  "running_bot =
     new_bot \<lparr> riskManager := (RiskManager_new env_unset ''Sun Nov 01 2026'')
                  \<lparr> dailyStats := \<lparr> startBalance = Fin 5000, currentPnL = Fin 0,
                       tradesCount = 0, startDate = ''Mon Nov 02 2026'' \<rparr> \<rparr>,
               status := Running, scanInterval := True,
               stats := \<lparr> tradesExecuted = 0, lastScanTime = Some 0, lastSignals = [],
                          errors = 0 \<rparr> \<rparr>"
  by (simp add: running_bot_def start_def Let_def runScanCycle_def resetDailyStats_def
      startDate_RiskManager_new updateDailyPnL_def shouldStopTrading_def
      hasHitDailyProfitLimit_def hasHitDailyLossLimit_def checkCircuitBreaker_def
      lossPercent_def findBestOpportunities_def js_sort_def new_bot_def TradingBot_new_def)

lemma running_bot_simps [simp]:
  "status running_bot = Running"
  "dailyStats (riskManager running_bot) =
     \<lparr> startBalance = Fin 5000, currentPnL = Fin 0, tradesCount = 0,
       startDate = ''Mon Nov 02 2026'' \<rparr>"
  "config (riskManager running_bot) = config (RiskManager_new env_unset ''Sun Nov 01 2026'')"
  by (simp_all add: running_bot_eq)

lemma small_bot_eq:
  "small_bot =
     new_bot \<lparr> riskManager := (RiskManager_new env_unset ''Sun Nov 01 2026'')
                  \<lparr> dailyStats := \<lparr> startBalance = Fin 2000, currentPnL = Fin 0,
                       tradesCount = 0, startDate = ''Mon Nov 02 2026'' \<rparr> \<rparr>,
               status := Running, scanInterval := True,
               stats := \<lparr> tradesExecuted = 0, lastScanTime = Some 0, lastSignals = [],
                          errors = 0 \<rparr> \<rparr>"
  by (simp add: small_bot_def start_def Let_def runScanCycle_def resetDailyStats_def
      startDate_RiskManager_new updateDailyPnL_def shouldStopTrading_def
      hasHitDailyProfitLimit_def hasHitDailyLossLimit_def checkCircuitBreaker_def
      lossPercent_def findBestOpportunities_def js_sort_def new_bot_def TradingBot_new_def)

lemma small_bot_simps [simp]:
  "status small_bot = Running"
  "dailyStats (riskManager small_bot) =
     \<lparr> startBalance = Fin 2000, currentPnL = Fin 0, tradesCount = 0,
       startDate = ''Mon Nov 02 2026'' \<rparr>"
  "config (riskManager small_bot) = config (RiskManager_new env_unset ''Sun Nov 01 2026'')"
  by (simp_all add: small_bot_eq)

lemma offline_world_simps [simp]:
  "a_testConnection (alpaca offline_world) = False"
  by (simp add: offline_world_def quiet_world_def quiet_alpaca_def)

text \<open>
  A halt in the first cycle of \<open>start\<close> comes before the timer is set: \<open>start\<close> then
  returns true with the bot stopped and the timer running, and it is the guard of the
  cycle that keeps the later ticks idle. Here a paused bot, its session opened at 5000, is
  started on a balance of 5600, over the daily profit limit.
\<close>

lemma start_halts_with_timer:
  "status (fst (fst (start (fst (pause running_bot)) (quiet_world (Fin 5600) (Fin 0)) [] [])))
     = Stopped
   \<and> scanInterval (fst (fst (start (fst (pause running_bot))
        (quiet_world (Fin 5600) (Fin 0)) [] []))) = True
   \<and> snd (start (fst (pause running_bot)) (quiet_world (Fin 5600) (Fin 0)) [] []) = Inr True"
proof -
  let ?w = "quiet_world (Fin 5600) (Fin 0)"
  let ?p = "fst (pause running_bot)"
  have p: "?p = running_bot \<lparr> status := Paused, scanInterval := False \<rparr>"
    by (simp add: pause_def)
  have r: "resetDailyStats (riskManager running_bot) ''Mon Nov 02 2026'' (Fin 5600)
      = riskManager running_bot"
    by (simp add: resetDailyStats_def)
  have h: "shouldStopTrading (updateDailyPnL (riskManager running_bot) (Fin 5600))"
    by (simp add: shouldStopTrading_def hasHitDailyProfitLimit_def updateDailyPnL_def)
  show ?thesis
    by (simp add: p start_def Let_def r runScanCycle_def h stop_def)
qed

text \<open>
  Claim C1. A cycle runs its body only when the bot is running: a tick that finds any
  other state returns the bot unchanged and gives no order. A running cycle that meets a
  halt condition leaves the bot stopped: the daily limits, or the circuit breaker once all
  positions are closed. From a bot that is not running, in every run of ticks and calls of
  \<open>pause\<close> and \<open>stop\<close> with no call of \<open>start\<close>, every tick leaves the bot as it finds it
  and gives no order, the bot never runs, and a stopped bot stays stopped.
\<close>

theorem tick_guard_and_halt:
  "(status tb \<noteq> Running \<longrightarrow> runScanCycle tb w = (tb, []))
   \<and> (status tb = Running \<and> getTotalBalance w = Inr balance
        \<and> shouldStopTrading (updateDailyPnL (riskManager tb) balance)
      \<longrightarrow> status (fst (runScanCycle tb w)) = Stopped)
   \<and> (status tb = Running \<and> getTotalBalance w = Inr balance
        \<and> \<not> shouldStopTrading (updateDailyPnL (riskManager tb) balance)
        \<and> checkCircuitBreaker (updateDailyPnL (riskManager tb) balance) balance
        \<and> snd (closeAllPositions w) = Inr ()
      \<longrightarrow> status (fst (runScanCycle tb w)) = Stopped)
   \<and> (status tb \<noteq> Running \<and> \<not> list_ex is_start evs
      \<longrightarrow> ticks_idle tb evs \<and> status (run tb evs) \<noteq> Running
          \<and> (status tb = Stopped \<longrightarrow> status (run tb evs) = Stopped))"
  using runScanCycle_idle [of tb w] halt_limits [of tb w balance]
    halt_breaker [of tb w balance] run_not_running [of tb evs]
  by blast

theorem tick_guard_and_halt_witness:
  "status (fst (runScanCycle running_bot (quiet_world (Fin 5600) (Fin 0)))) = Stopped
   \<and> ticks_idle (fst (runScanCycle running_bot (quiet_world (Fin 5600) (Fin 0))))
        [Tick (quiet_world (Fin 5600) (Fin 0)), PauseCall, Tick (quiet_world (Fin 5000) (Fin 0))]
   \<and> status (fst (runScanCycle small_bot (quiet_world (Fin 1890) (Fin 0)))) = Stopped
   \<and> runScanCycle new_bot (quiet_world (Fin 5600) (Fin 0)) = (new_bot, [])"
proof -
  let ?profit = "quiet_world (Fin 5600) (Fin 0)"
  let ?loss = "quiet_world (Fin 1890) (Fin 0)"
  let ?evs = "[Tick ?profit, PauseCall, Tick (quiet_world (Fin 5000) (Fin 0))]"
  have p: "shouldStopTrading (updateDailyPnL (riskManager running_bot) (Fin 5600))"
    by (simp add: shouldStopTrading_def hasHitDailyProfitLimit_def updateDailyPnL_def)
  have l1: "\<not> shouldStopTrading (updateDailyPnL (riskManager small_bot) (Fin 1890))"
    by (simp add: shouldStopTrading_def hasHitDailyProfitLimit_def hasHitDailyLossLimit_def
        updateDailyPnL_def)
  have l2: "checkCircuitBreaker (updateDailyPnL (riskManager small_bot) (Fin 1890)) (Fin 1890)"
    by (simp add: checkCircuitBreaker_def lossPercent_def updateDailyPnL_def)
  have a: "status (fst (runScanCycle running_bot ?profit)) = Stopped"
  proof (rule tick_guard_and_halt [of running_bot ?profit "Fin 5600" "[]",
        THEN conjunct2, THEN conjunct1, THEN mp])
    show "status running_bot = Running \<and> getTotalBalance ?profit = Inr (Fin 5600)
        \<and> shouldStopTrading (updateDailyPnL (riskManager running_bot) (Fin 5600))"
      using p by simp
  qed
  have c: "status (fst (runScanCycle small_bot ?loss)) = Stopped"
  proof (rule tick_guard_and_halt [of small_bot ?loss "Fin 1890" "[]",
        THEN conjunct2, THEN conjunct2, THEN conjunct1, THEN mp])
    show "status small_bot = Running \<and> getTotalBalance ?loss = Inr (Fin 1890)
        \<and> \<not> shouldStopTrading (updateDailyPnL (riskManager small_bot) (Fin 1890))
        \<and> checkCircuitBreaker (updateDailyPnL (riskManager small_bot) (Fin 1890)) (Fin 1890)
        \<and> snd (closeAllPositions ?loss) = Inr ()"
      using l1 l2 by simp
  qed
  have b: "ticks_idle (fst (runScanCycle running_bot ?profit)) ?evs"
  proof (rule tick_guard_and_halt [of "fst (runScanCycle running_bot ?profit)" ?profit
        "Fin 5600" ?evs, THEN conjunct2, THEN conjunct2, THEN conjunct2, THEN mp,
        THEN conjunct1])
    show "status (fst (runScanCycle running_bot ?profit)) \<noteq> Running
        \<and> \<not> list_ex is_start ?evs"
      using a by simp
  qed
  have d: "runScanCycle new_bot ?profit = (new_bot, [])"
  proof (rule tick_guard_and_halt [of new_bot ?profit "Fin 5600" "[]", THEN conjunct1, THEN mp])
    show "status new_bot \<noteq> Running" by simp
  qed
  from a b c d show ?thesis by blast
qed

text \<open>
  Claim C3, as the code has it. From a state other than running, when the connection of
  either service fails, \<open>start\<close> returns false and leaves the bot as it was, so a stopped
  bot stays stopped and a paused bot stays paused. From running, \<open>start\<close> returns false and
  leaves the bot as it was. A bot that was not running is running after \<open>start\<close> only if
  both connections are healthy, and \<open>start\<close> returns true only then.
\<close>

theorem start_connectivity:
  "(status tb \<noteq> Running
      \<and> \<not> (a_testConnection (alpaca w) \<and> k_testConnection (kraken w))
      \<longrightarrow> start tb w ss cs = ((tb, []), Inr False))
   \<and> (status tb = Running \<longrightarrow> start tb w ss cs = ((tb, []), Inr False))
   \<and> (status tb \<noteq> Running \<and> status (fst (fst (start tb w ss cs))) = Running
      \<longrightarrow> a_testConnection (alpaca w) \<and> k_testConnection (kraken w))
   \<and> (snd (start tb w ss cs) = Inr True
      \<longrightarrow> a_testConnection (alpaca w) \<and> k_testConnection (kraken w))"
  by (auto simp: start_def Let_def split: sum.splits prod.splits)

theorem start_connectivity_witness:
  "start new_bot offline_world [''AAPL''] [] = ((new_bot, []), Inr False)
   \<and> start running_bot offline_world [''AAPL''] [] = ((running_bot, []), Inr False)
   \<and> a_testConnection (alpaca (quiet_world (Fin 5000) (Fin 0)))
   \<and> k_testConnection (kraken (quiet_world (Fin 5000) (Fin 0)))"
proof -
  let ?w = "quiet_world (Fin 5000) (Fin 0)"
  have a: "start new_bot offline_world [''AAPL''] [] = ((new_bot, []), Inr False)"
  proof (rule start_connectivity [of new_bot offline_world "[''AAPL'']" "[]",
        THEN conjunct1, THEN mp])
    show "status new_bot \<noteq> Running
        \<and> \<not> (a_testConnection (alpaca offline_world) \<and> k_testConnection (kraken offline_world))"
      by simp
  qed
  have b: "start running_bot offline_world [''AAPL''] [] = ((running_bot, []), Inr False)"
  proof (rule start_connectivity [of running_bot offline_world "[''AAPL'']" "[]",
        THEN conjunct2, THEN conjunct1, THEN mp])
    show "status running_bot = Running" by simp
  qed
  have c: "a_testConnection (alpaca ?w) \<and> k_testConnection (kraken ?w)"
  proof (rule start_connectivity [of new_bot ?w "[]" "[]",
        THEN conjunct2, THEN conjunct2, THEN conjunct1, THEN mp])
    show "status new_bot \<noteq> Running \<and> status (fst (fst (start new_bot ?w [] []))) = Running"
      using running_bot_simps(1) by (simp add: running_bot_def)
  qed
  from a b c show ?thesis by blast
qed

text \<open>
  The claim has the bot stopped after a failed connection, from every state: a paused bot
  is still paused.
\<close>

theorem start_failure_keeps_paused:
  "status (fst (pause running_bot)) = Paused
   \<and> start (fst (pause running_bot)) offline_world [] []
       = ((fst (pause running_bot), []), Inr False)
   \<and> status (fst (fst (start (fst (pause running_bot)) offline_world [] []))) = Paused"
  by (simp add: start_def pause_def)

section \<open>Properties of the candidate loop\<close>

lemma js_floor_int: "js_floor x = Fin y \<Longrightarrow> \<exists>n::int. y = of_int n"
  by (cases x) auto

lemma calculatePositionSize_at_least_one:
  "\<not> js_lt (calculatePositionSize rm accountBalance price) (Fin 1)"
proof -
  define q where "q = js_floor (js_div (js_mul accountBalance
      (js_div (js_mul (Fin 2) (js_div (agressividade (config rm)) (Fin 100))) (Fin 100))) price)"
  have r: "calculatePositionSize rm accountBalance price
      = (if js_gt q (Fin 0) then q else Fin 1)"
    by (simp add: calculatePositionSize_def Let_def q_def)
  show ?thesis
  proof (cases q)
    case (Fin y)
    then obtain n :: int where "y = of_int n"
      unfolding q_def using js_floor_int by blast
    with Fin r show ?thesis by auto
  next
    case PosInf
    with r show ?thesis by (simp add: js_gt_def)
  next
    case NegInf
    with r show ?thesis by (simp add: js_gt_def)
  next
    case NaN
    with r show ?thesis by (simp add: js_gt_def)
  qed
qed

lemma executeTrade_below_minimum:
  assumes "exchange opp = Kraken"
    and "canOpenPosition rm (ts_positions ts) Kraken"
    and "\<not> list_ex (\<lambda>p. pos_symbol p = symbol opp) (ts_positions ts)"
    and "k_getBalance (kraken w) = Inr krakenBalance"
    and "js_lt (calculateCryptoPositionSize rm (total krakenBalance) (currentPrice opp))
           (k_getMinOrderSize (kraken w) (symbol opp))"
  shows "executeBuyCrypto w rm opp = ([], Inr None)
       \<and> executeTrade w rm opp ts
           = \<lparr> ts_tradesExecuted = ts_tradesExecuted ts + 1,
               ts_positions = ts_positions ts @ [provisional opp],
               ts_orders = ts_orders ts \<rparr>"
proof -
  have b: "executeBuyCrypto w rm opp = ([], Inr None)"
    using assms(4,5) by (simp add: executeBuyCrypto_def Let_def)
  then show ?thesis
    using assms(1,2,3) by (simp add: executeTrade_def traded_def)
qed

lemma dust_quantity:
  "calculateCryptoPositionSize (RiskManager_new env_unset d) (Fin 1000) (Fin 50000)
     = fl (1 / 1000)"
  by (simp add: calculateCryptoPositionSize_def Let_def)

lemma executeBuyCrypto_dust:
  "executeBuyCrypto (quiet_world (Fin 5000) (Fin 1000)) (RiskManager_new env_unset d)
     dust_candidate = ([], Inr None)"
  by (simp add: executeBuyCrypto_def quiet_world_def quiet_kraken_def dust_candidate_def
      dust_quantity Let_def)

text \<open>
  Claim C2, at an input where the code departs from it. The crypto candidate's size is
  the binary64 number 0.001, below the minimum order size 0.01: \<open>executeBuyCrypto\<close> returns without an order,
  and \<open>executeTrades\<close> still counts a trade and appends the provisional position, with no
  order given. The stock candidate that finds the market closed is skipped without either.
  (The lemmas above have the general form: every crypto candidate below the minimum is
  counted so, and the size of an equity position is never below 1.)
\<close>

theorem executeTrades_counts_skipped_buy:
  "calculateCryptoPositionSize (RiskManager_new env_unset ''Mon Nov 02 2026'')
       (Fin 1000) (currentPrice dust_candidate) = fl (1 / 1000)
   \<and> k_getMinOrderSize (kraken (quiet_world (Fin 5000) (Fin 1000))) (symbol dust_candidate)
       = fl (1 / 100)
   \<and> js_lt (fl (1 / 1000)) (fl (1 / 100))
   \<and> executeTrades (quiet_world (Fin 5000) (Fin 1000))
       (RiskManager_new env_unset ''Mon Nov 02 2026'') [dust_candidate] [] 0
     = \<lparr> ts_tradesExecuted = 1, ts_positions = [provisional dust_candidate], ts_orders = [] \<rparr>
   \<and> executeTrades closed_market_world
       (RiskManager_new env_unset ''Mon Nov 02 2026'') [stock_candidate] [] 0
     = \<lparr> ts_tradesExecuted = 0, ts_positions = [], ts_orders = [] \<rparr>"
proof -
  let ?rm = "RiskManager_new env_unset ''Mon Nov 02 2026''"
  have q: "calculateCryptoPositionSize ?rm (Fin 1000) (currentPrice dust_candidate)
      = fl (1 / 1000)"
    by (simp add: dust_candidate_def dust_quantity)
  have m: "k_getMinOrderSize (kraken (quiet_world (Fin 5000) (Fin 1000)))
      (symbol dust_candidate) = fl (1 / 100)"
    by (simp add: quiet_world_def quiet_kraken_def)
  have o: "canOpenPosition ?rm [] Kraken" "canOpenPosition ?rm [] Alpaca"
    by (simp_all add: canOpenPosition_def)
  have x: "exchange dust_candidate = Kraken" "exchange stock_candidate = Alpaca"
    by (simp_all add: dust_candidate_def stock_candidate_def)
  have t: "executeTrades (quiet_world (Fin 5000) (Fin 1000)) ?rm [dust_candidate] [] 0
      = \<lparr> ts_tradesExecuted = 1, ts_positions = [provisional dust_candidate],
          ts_orders = [] \<rparr>"
    by (simp add: executeTrades_def executeTrade_def o x executeBuyCrypto_dust traded_def)
  have c: "a_isMarketOpen (alpaca closed_market_world) = False"
    by (simp add: closed_market_world_def)
  have s: "executeTrades closed_market_world ?rm [stock_candidate] [] 0
      = \<lparr> ts_tradesExecuted = 0, ts_positions = [], ts_orders = [] \<rparr>"
    by (simp add: executeTrades_def executeTrade_def o x c)
  have lt: "js_lt (fl (1 / 1000)) (fl (1 / 100))" by simp
  from q m lt t s show ?thesis by blast
qed

section \<open>Properties of the scanner\<close>

lemma scanStock_throws:
  assumes "a_getHistoricalData a s = Inl e \<or> a_getCurrentPrice a s = Inl e"
  shows "scanStock a st s = None"
  using assms by (auto simp: scanStock_def split: sum.splits option.splits)

lemma scanCrypto_throws:
  assumes "k_getAvailableSymbol k (cfg_symbol c) (cfg_fallback c) = Inl e
     \<or> (k_getAvailableSymbol k (cfg_symbol c) (cfg_fallback c) = Inr (Some s)
         \<and> (k_getHistoricalData k s = Inl e \<or> k_getCurrentPrice k s = Inl e))"
  shows "scanCrypto k st c = None"
  using assms by (auto simp: scanCrypto_def split: sum.splits option.splits)

text \<open>
  An asset whose fetches go through yields a signal: that of the analysis of its history,
  at its price.
\<close>

lemma scanStock_ok:
  assumes "stock_fetch_ok a s"
  shows "\<exists>h p. a_getHistoricalData a s = Inr h \<and> a_getCurrentPrice a s = Inr (Some p)
           \<and> scanStock a st s
               = Some \<lparr> symbol = s, exchange = Alpaca, asset_type = stock, currentPrice = p,
                        rsi = parse_rsi (an_rsi (analyze st h)),
                        signal = an_signal (analyze st h),
                        strength = an_strength (analyze st h) \<rparr>"
  using assms
  by (auto simp: stock_fetch_ok_def scanStock_def Let_def split: sum.splits option.splits)

lemma scanCrypto_ok:
  assumes "crypto_fetch_ok k c"
  shows "\<exists>sy h p. k_getAvailableSymbol k (cfg_symbol c) (cfg_fallback c) = Inr (Some sy)
           \<and> k_getHistoricalData k sy = Inr h \<and> k_getCurrentPrice k sy = Inr (Some p)
           \<and> scanCrypto k st c
               = Some \<lparr> symbol = sy, exchange = Kraken, asset_type = crypto, currentPrice = p,
                        rsi = parse_rsi (an_rsi (analyze st h)),
                        signal = an_signal (analyze st h),
                        strength = an_strength (analyze st h) \<rparr>"
proof -
  from assms obtain sy
    where s: "k_getAvailableSymbol k (cfg_symbol c) (cfg_fallback c) = Inr (Some sy)"
    by (auto simp: crypto_fetch_ok_def split: sum.splits option.splits)
  with assms obtain h where h: "k_getHistoricalData k sy = Inr h" "20 \<le> length h"
    by (auto simp: crypto_fetch_ok_def split: sum.splits)
  with assms s obtain p where p: "k_getCurrentPrice k sy = Inr (Some p)" "js_truthy p"
    by (auto simp: crypto_fetch_ok_def split: sum.splits option.splits)
  have "scanCrypto k st c
      = Some \<lparr> symbol = sy, exchange = Kraken, asset_type = crypto, currentPrice = p,
               rsi = parse_rsi (an_rsi (analyze st h)),
               signal = an_signal (analyze st h),
               strength = an_strength (analyze st h) \<rparr>"
    using h(2) p(2) by (simp add: scanCrypto_def s h(1) p(1) Let_def)
  with s h(1) p(1) show ?thesis by blast
qed

lemma scanStock_ok_symbol:
  assumes "stock_fetch_ok a s"
  shows "\<exists>sg. scanStock a st s = Some sg \<and> symbol sg = s"
  using scanStock_ok [OF assms, of st] by auto

lemma scanCrypto_ok_Some:
  assumes "crypto_fetch_ok k c"
  shows "scanCrypto k st c \<noteq> None"
  using scanCrypto_ok [OF assms, of st] by auto

lemma length_map_filter_all:
  assumes "\<forall>x \<in> set xs. f x \<noteq> None"
  shows "length (List.map_filter f xs) = length xs"
  using assms by (induction xs) (auto simp: List.map_filter_simps split: option.splits)

lemma map_filter_append:
  "List.map_filter f (xs @ ys) = List.map_filter f xs @ List.map_filter f ys"
  by (simp add: List.map_filter_def)

lemma length_map_filter_one:
  assumes "f bad = None" and "\<forall>x \<in> set (pre @ post). f x \<noteq> None"
  shows "length (List.map_filter f (pre @ bad # post)) = length pre + length post"
proof -
  have "length (List.map_filter f pre) = length pre"
    and "length (List.map_filter f post) = length post"
    using assms(2) by (simp_all add: length_map_filter_all)
  then show ?thesis
    using assms(1) by (simp add: map_filter_append List.map_filter_simps)
qed

lemma map_map_filter_all:
  assumes "\<forall>x \<in> set xs. \<exists>y. f x = Some y \<and> h y = x"
  shows "map h (List.map_filter f xs) = xs"
  using assms by (induction xs) (auto simp: List.map_filter_simps)

lemma map_map_filter_one:
  assumes "f bad = None" and "\<forall>x \<in> set (pre @ post). \<exists>y. f x = Some y \<and> h y = x"
  shows "map h (List.map_filter f (pre @ bad # post)) = pre @ post"
proof -
  have "map h (List.map_filter f pre) = pre" and "map h (List.map_filter f post) = post"
    using assms(2) by (simp_all add: map_map_filter_all)
  then show ?thesis
    using assms(1) by (simp add: map_filter_append List.map_filter_simps)
qed

lemma scanAll_total:
  "sr_all (scanAll a k st ss cs) = scanStocks a st ss @ scanCryptos k st cs"
  "st_total (sr_stats (scanAll a k st ss cs))
     = length (scanStocks a st ss) + length (scanCryptos k st cs)"
  by (simp_all add: scanAll_def Let_def)

lemma cycle_errors:
  assumes "getTotalBalance w = Inr balance" and "snd (closeAllPositions w) = Inr ()"
  shows "errors (stats (fst (runScanCycle tb w))) = errors (stats tb)"
  using assms
  by (cases "closeAllPositions w") (simp add: runScanCycle_def Let_def stop_def)

lemma scanAll_stock_fails:
  assumes "a_getHistoricalData a bad = Inl e \<or> a_getCurrentPrice a bad = Inl e"
    and "\<forall>s \<in> set (pre @ post). stock_fetch_ok a s"
    and "\<forall>c \<in> set cs. crypto_fetch_ok k c"
  shows "scanStock a st bad = None
       \<and> map symbol (scanStocks a st (pre @ bad # post)) = pre @ post
       \<and> length (scanCryptos k st cs) = length cs
       \<and> length (sr_all (scanAll a k st (pre @ bad # post) cs))
           = length (pre @ bad # post) + length cs - 1
       \<and> st_total (sr_stats (scanAll a k st (pre @ bad # post) cs))
           = length (pre @ bad # post) + length cs - 1"
proof -
  have n: "scanStock a st bad = None"
    by (rule scanStock_throws [OF assms(1)])
  have ok: "\<forall>s \<in> set (pre @ post). \<exists>sg. scanStock a st s = Some sg \<and> symbol sg = s"
    using assms(2) scanStock_ok_symbol by blast
  have m: "map symbol (scanStocks a st (pre @ bad # post)) = pre @ post"
    unfolding scanStocks_def by (rule map_map_filter_one [OF n ok])
  have "length (map symbol (scanStocks a st (pre @ bad # post))) = length (pre @ post)"
    by (simp only: m)
  then have s: "length (scanStocks a st (pre @ bad # post)) = length pre + length post"
    by simp
  have "\<forall>c \<in> set cs. scanCrypto k st c \<noteq> None"
    using assms(3) scanCrypto_ok_Some by blast
  then have c: "length (scanCryptos k st cs) = length cs"
    unfolding scanCryptos_def by (rule length_map_filter_all)
  from n m s c show ?thesis by (simp add: scanAll_total)
qed

lemma scanAll_crypto_fails:
  assumes "k_getAvailableSymbol k (cfg_symbol bad) (cfg_fallback bad) = Inl e
     \<or> (k_getAvailableSymbol k (cfg_symbol bad) (cfg_fallback bad) = Inr (Some sy)
         \<and> (k_getHistoricalData k sy = Inl e \<or> k_getCurrentPrice k sy = Inl e))"
    and "\<forall>s \<in> set ss. stock_fetch_ok a s"
    and "\<forall>c \<in> set (pre @ post). crypto_fetch_ok k c"
  shows "scanCrypto k st bad = None
       \<and> map symbol (scanStocks a st ss) = ss
       \<and> length (scanCryptos k st (pre @ bad # post)) = length pre + length post
       \<and> length (sr_all (scanAll a k st ss (pre @ bad # post)))
           = length ss + length (pre @ bad # post) - 1
       \<and> st_total (sr_stats (scanAll a k st ss (pre @ bad # post)))
           = length ss + length (pre @ bad # post) - 1"
proof -
  have n: "scanCrypto k st bad = None"
    by (rule scanCrypto_throws [OF assms(1)])
  have "\<forall>c \<in> set (pre @ post). scanCrypto k st c \<noteq> None"
    using assms(3) scanCrypto_ok_Some by blast
  with n have c: "length (scanCryptos k st (pre @ bad # post)) = length pre + length post"
    unfolding scanCryptos_def by (rule length_map_filter_one)
  have ok: "\<forall>s \<in> set ss. \<exists>sg. scanStock a st s = Some sg \<and> symbol sg = s"
    using assms(2) scanStock_ok_symbol by blast
  have m: "map symbol (scanStocks a st ss) = ss"
    unfolding scanStocks_def by (rule map_map_filter_all [OF ok])
  have "length (map symbol (scanStocks a st ss)) = length ss"
    by (simp only: m)
  then have s: "length (scanStocks a st ss) = length ss" by simp
  from n m s c show ?thesis by (simp add: scanAll_total)
qed

lemma analyze_flat:
  "analyze default_strategy (flat_series 20 c)
     = \<lparr> an_rsi = Some (Fin 100), an_signal = SELL, an_strength = Fin 100 \<rparr>"
proof -
  have "calculateRSI default_strategy (flat_series 20 c) = Some (Fin 100)"
    by (rule calculateRSI_const [where c = c]) simp_all
  then show ?thesis
    by (simp add: analyze_def generateSignal_def Let_def js_gt_def)
qed

lemma one_bad_alpaca_simps [simp]:
  "a_getHistoricalData one_bad_alpaca ''AAPL'' = Inl (Error ''timeout'')"
  "a_getHistoricalData one_bad_alpaca ''MSFT'' = Inr (flat_series 20 10)"
  "a_getHistoricalData one_bad_alpaca ''GOOG'' = Inr (flat_series 20 10)"
  "a_getHistoricalData one_bad_alpaca ''TSLA'' = Inr (flat_series 5 10)"
  "a_getCurrentPrice one_bad_alpaca s = Inr (Some (Fin 10))"
  by (simp_all add: one_bad_alpaca_def quiet_alpaca_def)

lemma one_bad_kraken_simps [simp]:
  "k_getAvailableSymbol one_bad_kraken (cfg_symbol eth) (cfg_fallback eth)
     = Inl (Error ''down'')"
  "k_getAvailableSymbol one_bad_kraken (cfg_symbol btc) (cfg_fallback btc)
     = Inr (Some ''BTC/EUR'')"
  "k_getHistoricalData one_bad_kraken s = Inr (flat_series 20 50000)"
  "k_getCurrentPrice one_bad_kraken s = Inr (Some (Fin 50000))"
  by (simp_all add: one_bad_kraken_def quiet_kraken_def eth_def btc_def)

lemma fetch_ok_examples [simp]:
  "stock_fetch_ok one_bad_alpaca ''MSFT''"
  "stock_fetch_ok one_bad_alpaca ''GOOG''"
  "\<not> stock_fetch_ok one_bad_alpaca ''TSLA''"
  "crypto_fetch_ok one_bad_kraken btc"
  by (simp_all add: stock_fetch_ok_def crypto_fetch_ok_def)

lemma scanStock_one_bad:
  "scanStock one_bad_alpaca default_strategy ''AAPL'' = None"
  "scanStock one_bad_alpaca default_strategy ''MSFT''
     = Some \<lparr> symbol = ''MSFT'', exchange = Alpaca, asset_type = stock,
              currentPrice = Fin 10, rsi = Fin 100, signal = SELL, strength = Fin 100 \<rparr>"
  "scanStock one_bad_alpaca default_strategy ''TSLA'' = None"
  by (simp_all add: scanStock_def analyze_flat parse_rsi_def)

lemma scanAll_one_bad:
  "scanAll one_bad_alpaca k default_strategy [''AAPL'', ''MSFT'', ''TSLA''] []
     = \<lparr> sr_all = [\<lparr> symbol = ''MSFT'', exchange = Alpaca, asset_type = stock,
                     currentPrice = Fin 10, rsi = Fin 100, signal = SELL,
                     strength = Fin 100 \<rparr>],
         sr_buy = [],
         sr_sell = [\<lparr> symbol = ''MSFT'', exchange = Alpaca, asset_type = stock,
                      currentPrice = Fin 10, rsi = Fin 100, signal = SELL,
                      strength = Fin 100 \<rparr>],
         sr_stats = \<lparr> st_total = 1, buyCount = 0, sellCount = 1 \<rparr> \<rparr>"
  by (simp add: scanAll_def scanStocks_def scanCryptos_def List.map_filter_simps
      scanStock_one_bad js_sort_def Let_def)

lemma one_bad_world_simps [simp]:
  "alpaca one_bad_world = one_bad_alpaca"
  "kraken one_bad_world = quiet_kraken (Fin 0)"
  "getTotalBalance one_bad_world = Inr (Fin 5000)"
  "getAllPositions one_bad_world = []"
  "closeAllPositions one_bad_world = ([CloseAllPositions], Inr ())"
  "w_now one_bad_world = 0"
  by (simp_all add: one_bad_world_def one_bad_alpaca_def quiet_world_def quiet_alpaca_def
      quiet_kraken_def getTotalBalance_def getAllPositions_def closeAllPositions_def)

lemma scanning_bot_simps [simp]:
  "status scanning_bot = Running"
  "stockSymbols scanning_bot = [''AAPL'', ''MSFT'', ''TSLA'']"
  "cryptoConfigs scanning_bot = []"
  "strategy scanning_bot = default_strategy"
  "stats scanning_bot
     = \<lparr> tradesExecuted = 0, lastScanTime = Some 0, lastSignals = [], errors = 0 \<rparr>"
  "riskManager scanning_bot = riskManager running_bot"
  by (simp_all add: scanning_bot_def running_bot_eq new_bot_def TradingBot_new_def
      default_strategy_def RSIStrategy_new_def js_or_def)

lemma running_bot_no_halt:
  "\<not> shouldStopTrading (updateDailyPnL (riskManager running_bot) (Fin 5000))"
  "\<not> checkCircuitBreaker (updateDailyPnL (riskManager running_bot) (Fin 5000)) (Fin 5000)"
  by (simp_all add: shouldStopTrading_def hasHitDailyProfitLimit_def
      hasHitDailyLossLimit_def updateDailyPnL_def checkCircuitBreaker_def lossPercent_def)

lemma cycle_one_bad:
  "stats (fst (runScanCycle scanning_bot one_bad_world))
     = \<lparr> tradesExecuted = 0, lastScanTime = Some 0,
         lastSignals = [\<lparr> symbol = ''MSFT'', exchange = Alpaca, asset_type = stock,
                          currentPrice = Fin 10, rsi = Fin 100, signal = SELL,
                          strength = Fin 100 \<rparr>],
         errors = 0 \<rparr>"
  by (simp add: runScanCycle_def Let_def running_bot_no_halt scanAll_one_bad
      findBestOpportunities_def js_sort_def)

text \<open>
  Claim C4, as the code has it. When the fetch of one asset throws (a stock's history or
  price; a crypto pair's symbol lookup, history or price) and the fetches of every other
  asset go through (no fetch throws, the history has at least twenty bars, the price is
  there and is neither zero nor \<open>NaN\<close>, a crypto pair's symbol is found), the failing asset
  yields no signal and \<open>scanAll\<close> returns \<open>N - 1\<close> signals, which is the \<open>total\<close> of its
  statistics: one for each other asset, the stocks' signals in the order of the stocks.
  No count of errors is kept: the statistics of \<open>scanAll\<close> are \<open>total\<close>, \<open>buyCount\<close> and
  \<open>sellCount\<close>, and the error counter of the bot is as it was after every cycle in which
  the fetch of the balances and the closing of all positions do not throw.
\<close>

theorem scanAll_one_failure:
  "((a_getHistoricalData a bad = Inl e \<or> a_getCurrentPrice a bad = Inl e)
      \<and> (\<forall>s \<in> set (pre @ post). stock_fetch_ok a s)
      \<and> (\<forall>c \<in> set cs. crypto_fetch_ok k c)
     \<longrightarrow> scanStock a st bad = None
       \<and> map symbol (scanStocks a st (pre @ bad # post)) = pre @ post
       \<and> length (scanCryptos k st cs) = length cs
       \<and> length (sr_all (scanAll a k st (pre @ bad # post) cs))
           = length (pre @ bad # post) + length cs - 1
       \<and> st_total (sr_stats (scanAll a k st (pre @ bad # post) cs))
           = length (pre @ bad # post) + length cs - 1)
   \<and> ((k_getAvailableSymbol k (cfg_symbol badc) (cfg_fallback badc) = Inl e
        \<or> (k_getAvailableSymbol k (cfg_symbol badc) (cfg_fallback badc) = Inr (Some sy)
            \<and> (k_getHistoricalData k sy = Inl e \<or> k_getCurrentPrice k sy = Inl e)))
      \<and> (\<forall>s \<in> set ss. stock_fetch_ok a s)
      \<and> (\<forall>c \<in> set (prec @ postc). crypto_fetch_ok k c)
     \<longrightarrow> scanCrypto k st badc = None
       \<and> map symbol (scanStocks a st ss) = ss
       \<and> length (scanCryptos k st (prec @ badc # postc)) = length prec + length postc
       \<and> length (sr_all (scanAll a k st ss (prec @ badc # postc)))
           = length ss + length (prec @ badc # postc) - 1
       \<and> st_total (sr_stats (scanAll a k st ss (prec @ badc # postc)))
           = length ss + length (prec @ badc # postc) - 1)
   \<and> (getTotalBalance w = Inr balance \<and> snd (closeAllPositions w) = Inr ()
     \<longrightarrow> errors (stats (fst (runScanCycle tb w))) = errors (stats tb))"
  using scanAll_stock_fails [of a bad e pre post cs k st]
    scanAll_crypto_fails [of k badc e sy ss a prec postc st]
    cycle_errors [of w balance tb]
  by blast

theorem scanAll_one_failure_witness:
  "st_total (sr_stats (scanAll one_bad_alpaca one_bad_kraken default_strategy
       [''MSFT'', ''AAPL'', ''GOOG''] [btc])) = 3
   \<and> map symbol (scanStocks one_bad_alpaca default_strategy [''MSFT'', ''AAPL'', ''GOOG''])
       = [''MSFT'', ''GOOG'']
   \<and> st_total (sr_stats (scanAll one_bad_alpaca one_bad_kraken default_strategy
       [''MSFT''] [btc, eth])) = 2
   \<and> errors (stats (fst (runScanCycle scanning_bot one_bad_world))) = 0"
proof -
  have a: "scanStock one_bad_alpaca default_strategy ''AAPL'' = None
      \<and> map symbol (scanStocks one_bad_alpaca default_strategy
            ([''MSFT''] @ ''AAPL'' # [''GOOG''])) = [''MSFT''] @ [''GOOG'']
      \<and> length (scanCryptos one_bad_kraken default_strategy [btc]) = length [btc]
      \<and> length (sr_all (scanAll one_bad_alpaca one_bad_kraken default_strategy
            ([''MSFT''] @ ''AAPL'' # [''GOOG'']) [btc]))
          = length ([''MSFT''] @ ''AAPL'' # [''GOOG'']) + length [btc] - 1
      \<and> st_total (sr_stats (scanAll one_bad_alpaca one_bad_kraken default_strategy
            ([''MSFT''] @ ''AAPL'' # [''GOOG'']) [btc]))
          = length ([''MSFT''] @ ''AAPL'' # [''GOOG'']) + length [btc] - 1"
  proof (rule scanAll_one_failure [where a = one_bad_alpaca and bad = "''AAPL''"
        and e = "Error ''timeout''" and pre = "[''MSFT'']" and post = "[''GOOG'']"
        and st = default_strategy and cs = "[btc]" and k = one_bad_kraken,
        THEN conjunct1, THEN mp])
    show "(a_getHistoricalData one_bad_alpaca ''AAPL'' = Inl (Error ''timeout'')
          \<or> a_getCurrentPrice one_bad_alpaca ''AAPL'' = Inl (Error ''timeout''))
        \<and> (\<forall>s \<in> set ([''MSFT''] @ [''GOOG'']). stock_fetch_ok one_bad_alpaca s)
        \<and> (\<forall>c \<in> set [btc]. crypto_fetch_ok one_bad_kraken c)"
      by simp
  qed
  have b: "scanCrypto one_bad_kraken default_strategy eth = None
      \<and> map symbol (scanStocks one_bad_alpaca default_strategy [''MSFT'']) = [''MSFT'']
      \<and> length (scanCryptos one_bad_kraken default_strategy ([btc] @ eth # []))
          = length [btc] + length ([] :: crypto_config list)
      \<and> length (sr_all (scanAll one_bad_alpaca one_bad_kraken default_strategy
            [''MSFT''] ([btc] @ eth # [])))
          = length [''MSFT''] + length ([btc] @ eth # []) - 1
      \<and> st_total (sr_stats (scanAll one_bad_alpaca one_bad_kraken default_strategy
            [''MSFT''] ([btc] @ eth # [])))
          = length [''MSFT''] + length ([btc] @ eth # []) - 1"
  proof (rule scanAll_one_failure [where k = one_bad_kraken and badc = eth
        and e = "Error ''down''" and ss = "[''MSFT'']" and prec = "[btc]" and postc = "[]"
        and st = default_strategy and a = one_bad_alpaca and sy = "''ETH/EUR''",
        THEN conjunct2, THEN conjunct1, THEN mp])
    show "(k_getAvailableSymbol one_bad_kraken (cfg_symbol eth) (cfg_fallback eth)
            = Inl (Error ''down'')
          \<or> (k_getAvailableSymbol one_bad_kraken (cfg_symbol eth) (cfg_fallback eth)
                = Inr (Some ''ETH/EUR'')
              \<and> (k_getHistoricalData one_bad_kraken ''ETH/EUR'' = Inl (Error ''down'')
                  \<or> k_getCurrentPrice one_bad_kraken ''ETH/EUR'' = Inl (Error ''down''))))
        \<and> (\<forall>s \<in> set [''MSFT'']. stock_fetch_ok one_bad_alpaca s)
        \<and> (\<forall>c \<in> set ([btc] @ []). crypto_fetch_ok one_bad_kraken c)"
      by simp
  qed
  have c: "errors (stats (fst (runScanCycle scanning_bot one_bad_world)))
      = errors (stats scanning_bot)"
  proof (rule scanAll_one_failure [where w = one_bad_world and balance = "Fin 5000"
        and tb = scanning_bot, THEN conjunct2, THEN conjunct2, THEN mp])
    show "getTotalBalance one_bad_world = Inr (Fin 5000)
        \<and> snd (closeAllPositions one_bad_world) = Inr ()"
      by simp
  qed
  from a b c show ?thesis by simp
qed

text \<open>
  The claim has \<open>N - 1\<close> signals and an error count of 1 whenever the fetch of exactly one
  asset throws. With three stocks, the fetch of the first throwing, the second with twenty
  bars and the third with five bars and no error, the scan returns one signal, not two;
  its statistics have no error count, and after the cycle the bot's error counter, the
  only one of the program, is 0.
\<close>

theorem scanAll_keeps_no_error_count:
  "a_getHistoricalData (alpaca one_bad_world) ''AAPL'' = Inl (Error ''timeout'')
   \<and> a_getHistoricalData (alpaca one_bad_world) ''MSFT'' = Inr (flat_series 20 10)
   \<and> a_getHistoricalData (alpaca one_bad_world) ''TSLA'' = Inr (flat_series 5 10)
   \<and> a_getCurrentPrice (alpaca one_bad_world) ''TSLA'' = Inr (Some (Fin 10))
   \<and> sr_stats (scanAll (alpaca one_bad_world) (kraken one_bad_world) default_strategy
        [''AAPL'', ''MSFT'', ''TSLA''] [])
       = \<lparr> st_total = 1, buyCount = 0, sellCount = 1 \<rparr>
   \<and> length (lastSignals (stats (fst (runScanCycle scanning_bot one_bad_world)))) = 1
   \<and> errors (stats (fst (runScanCycle scanning_bot one_bad_world))) = 0"
  by (simp add: scanAll_one_bad cycle_one_bad)

end
